theory Spec2Isabelle
  imports Main
begin

section \<open>The OFIQ build orchestrator (scripts/build_ofiq.py)\<close>

text \<open>
  The script is a sequence of stages run by \<^verbatim>\<open>OFIQBuilder.run\<close>: argument parsing,
  environment derivation, prerequisite probing, dependency acquisition, CMake
  configuration, compilation and artifact verification. Every stage talks to the outside
  (subprocesses, the file system, the console) and may end the process with
  \<^verbatim>\<open>sys.exit(1)\<close>.

  The embedding makes these effects explicit:
  \<^item> the outside is a record \<open>world\<close> of oracles: what a subprocess invocation does, whether
    a path exists, what a directory holds;
  \<^item> a stage is a value of type \<open>'a io\<close>: the list of effects it performed, in order, and
    how it ended (a return value, \<^verbatim>\<open>SystemExit\<close>, or a raised exception);
  \<^item> the builder object is a record passed from stage to stage.

  What a subprocess call does is left entirely to the world, because the script branches
  on it: it may complete, exit with a non-zero status, or fail to start. The remaining
  calls are taken to complete: \<^verbatim>\<open>print\<close>, \<^verbatim>\<open>Path.exists\<close>, \<^verbatim>\<open>shutil.rmtree\<close>,
  \<^verbatim>\<open>Path.mkdir\<close>, \<^verbatim>\<open>Path.iterdir\<close> and \<^verbatim>\<open>Path.stat\<close> appear in the trace and do not
  raise. The script never asks the same question twice in a run (each command line and
  each path is its own), so the answer of an oracle is the answer at the moment of the
  call.
\<close>

subsection \<open>Paths, strings and the outside world\<close>

text \<open>
  A \<^verbatim>\<open>pathlib.Path\<close> is modelled by its string form. The separator that \<^verbatim>\<open>/\<close> inserts is the
  platform's and is a field of the world (the clean-up of redundant separators that
  \<^verbatim>\<open>pathlib\<close> does is not modelled).
\<close>

type_synonym path = string

text \<open>
  The exceptions the script distinguishes. \<^verbatim>\<open>subprocess.run(..., check=True)\<close> raises
  \<^verbatim>\<open>CalledProcessError\<close> on a non-zero exit status and \<^verbatim>\<open>FileNotFoundError\<close> when the
  executable cannot be started; \<open>OtherError\<close> stands for any other subclass of
  \<^verbatim>\<open>Exception\<close> (\<^verbatim>\<open>PermissionError\<close>, \<^verbatim>\<open>NotADirectoryError\<close>, ...). \<open>AttributeError\<close> is
  raised when an attribute that \<^verbatim>\<open>__init__\<close> does not create is read before it is set.
\<close>

datatype exn = CalledProcessError | FileNotFoundError | AttributeError | OtherError

record world =
  script_root :: path
    \<comment> \<open>\<^verbatim>\<open>Path(__file__).parent.parent\<close>\<close>
  os_sep :: string
    \<comment> \<open>the separator of \<^verbatim>\<open>pathlib\<close> on this platform\<close>
  platform_system :: string
    \<comment> \<open>\<^verbatim>\<open>platform.system()\<close>\<close>
  proc :: "string list \<Rightarrow> path option \<Rightarrow> exn + string"
    \<comment> \<open>\<^verbatim>\<open>subprocess.run(argv, check=True, cwd=...)\<close>: the exception raised, or the captured
       standard output of a run that exited with status 0\<close>
  path_exists :: "path \<Rightarrow> bool"
    \<comment> \<open>\<^verbatim>\<open>Path.exists\<close>, at the moment the script asks\<close>
  list_dir :: "path \<Rightarrow> string list"
    \<comment> \<open>the names \<^verbatim>\<open>Path.iterdir\<close> yields\<close>
  file_size :: "path \<Rightarrow> nat"
    \<comment> \<open>\<^verbatim>\<open>Path.stat().st_size\<close>\<close>

definition pjoin :: "world \<Rightarrow> path \<Rightarrow> string \<Rightarrow> path" where
  "pjoin w p c = p @ os_sep w @ c"

text \<open>\<^verbatim>\<open>str.split()\<close> with no argument: the maximal runs of non-whitespace characters.\<close>

definition is_space :: "char \<Rightarrow> bool" where
  "is_space c \<longleftrightarrow> c \<in> set [CHR '' '', CHR 0x09, CHR 0x0A, CHR 0x0B, CHR 0x0C, CHR 0x0D,
     CHR 0x1C, CHR 0x1D, CHR 0x1E, CHR 0x1F]"

fun split_acc :: "string \<Rightarrow> string \<Rightarrow> string list" where
  "split_acc cur [] = (if cur = [] then [] else [cur])"
| "split_acc cur (c # cs) =
     (if is_space c then (if cur = [] then split_acc [] cs else cur # split_acc [] cs)
      else split_acc (cur @ [c]) cs)"

definition split_ws :: "string \<Rightarrow> string list" where
  "split_ws s = split_acc [] s"

text \<open>\<^verbatim>\<open>str.strip()\<close> and \<^verbatim>\<open>s.split('\n')[0]\<close>.\<close>

definition strip :: "string \<Rightarrow> string" where
  "strip s = rev (dropWhile is_space (rev (dropWhile is_space s)))"

definition first_line :: "string \<Rightarrow> string" where
  "first_line s = takeWhile (\<lambda>c. c \<noteq> CHR 0x0A) s"

subsection \<open>Effects\<close>

text \<open>
  One constructor for each \<^verbatim>\<open>print\<close> of the script (consecutive unconditional prints
  share one), carrying the values the line interpolates before they are formatted. The
  messages are grouped by the method that prints them.
\<close>

datatype prereq_message =
    CheckingPrerequisites
  | ConanFound string
  | ConanFoundAt string path
  | ConanNotFound
  | ToolFound string string
  | ToolNotFound string
  | MissingRequiredTools "string list"
  | PlatformWarning
  | AllPrerequisitesSatisfied

datatype deps_message =
    SkippingDependencies
  | BuildingDependencies bool
  | CleaningConanCache
  | ConanBuilt
  | ConanBuildFailed
  | BuildingFromSource
  | AvailableDependencies "string list"
  | MissingDependencies "string list"
  | CannotBuildFromSource "string list"
  | AllDependenciesFound
  | BuildingOpenCV
  | OpenCVBuilt
  | OpenCVBuildFailed
  | BuildingGoogleTest
  | GoogleTestBuilt
  | GoogleTestBuildFailed
  | BuildingONNX
  | ONNXBuilt
  | ONNXBuildFailed

datatype cmake_message =
    ConfiguringCMake
  | RemovingBuildDirectory path
  | CMakeConfigured
  | CMakeConfigurationFailed
  | BuildingProject string
  | ProjectBuilt
  | ProjectBuildFailed

datatype verify_message =
    VerifyingBuild
  | LibraryFound path
  | FileSize nat
  | LibraryNotFound path
  | FilesInDirectory "string list"
  | SampleAppFound path
  | SampleAppNotFound
  | VerificationCompleted

datatype message =
    Banner
  | SettingUp string int string bool bool
  | Running "string list"
  | Prereq prereq_message
  | Deps deps_message
  | CMake cmake_message
  | Verify verify_message
  | BuildSuccessful path
  | BuildFailedWithError exn

text \<open>
  The effects of a run, in the order the script performs them. \<open>Subprocess argv cwd shell\<close>
  is one call of \<^verbatim>\<open>subprocess.run\<close>.
\<close>

datatype event =
    Print message
  | Subprocess "string list" "path option" bool
  | Exists path
  | Rmtree path
  | Mkdir path
  | Iterdir path
  | Stat path

text \<open>How a piece of the script ends: it returns, it exits the process, or it raises.\<close>

datatype 'a result = Return 'a | SysExit nat | Raised exn

type_synonym 'a io = "event list \<times> 'a result"

definition ret :: "'a \<Rightarrow> 'a io" where
  "ret x = ([], Return x)"

definition io_bind :: "'a io \<Rightarrow> ('a \<Rightarrow> 'b io) \<Rightarrow> 'b io" where
  "io_bind m f =
     (case m of
        (t, Return x) \<Rightarrow> (case f x of (t', r) \<Rightarrow> (t @ t', r))
      | (t, SysExit n) \<Rightarrow> (t, SysExit n)
      | (t, Raised e) \<Rightarrow> (t, Raised e))"

definition io_seq :: "'a io \<Rightarrow> 'b io \<Rightarrow> 'b io" where
  "io_seq m k = io_bind m (\<lambda>_. k)"

definition emit :: "event \<Rightarrow> unit io" where
  "emit e = ([e], Return ())"

definition print :: "message \<Rightarrow> unit io" where
  "print m = emit (Print m)"

definition sys_exit :: "nat \<Rightarrow> 'a io" where
  "sys_exit n = ([], SysExit n)"

definition raise :: "exn \<Rightarrow> 'a io" where
  "raise e = ([], Raised e)"

text \<open>
  \<^verbatim>\<open>try: m except (E1, E2): h\<close>. \<^verbatim>\<open>SystemExit\<close> is not an \<^verbatim>\<open>Exception\<close> and passes through.
\<close>

definition try_except :: "'a io \<Rightarrow> exn list \<Rightarrow> 'a io \<Rightarrow> 'a io" where
  "try_except m caught h =
     (case m of
        (t, Raised e) \<Rightarrow>
          (if e \<in> set caught then (case h of (t', r) \<Rightarrow> (t @ t', r)) else (t, Raised e))
      | (t, r) \<Rightarrow> (t, r))"

definition subprocess_run :: "world \<Rightarrow> string list \<Rightarrow> path option \<Rightarrow> bool \<Rightarrow> string io" where
  "subprocess_run w argv cwd shell =
     ([Subprocess argv cwd shell],
      (case proc w argv cwd of Inl e \<Rightarrow> Raised e | Inr out \<Rightarrow> Return out))"

definition exists :: "world \<Rightarrow> path \<Rightarrow> bool io" where
  "exists w p = ([Exists p], Return (path_exists w p))"

subsection \<open>The builder object\<close>

text \<open>
  The attributes of \<^verbatim>\<open>OFIQBuilder\<close>, with the types the script gives them. \<^verbatim>\<open>skip_deps\<close> and
  \<^verbatim>\<open>conan_path\<close> are not created by \<^verbatim>\<open>__init__\<close>: they are \<open>None\<close> until a method assigns
  them, and reading them before that raises \<^verbatim>\<open>AttributeError\<close>.
\<close>

record builder =
  root_dir :: path
  build_dir :: path
  install_dir :: string
  architecture :: string
  compiler_version :: int
  use_conan :: bool
  download :: bool
  config :: string
  vs_version :: string
  generator :: string
  compiler_flags :: string
  conan_set_arch :: string
  onnxruntime_flags :: string
  set_architecture :: string
  skip_deps :: "bool option"
  conan_path :: "string option"

text \<open>\<^verbatim>\<open>OFIQBuilder.__init__\<close> (the attribute \<^verbatim>\<open>script_dir\<close> is never read and is left out).\<close>

definition init_builder :: "world \<Rightarrow> builder" where
  "init_builder w =
     \<lparr> root_dir = script_root w,
       build_dir = pjoin w (pjoin w (script_root w) ''build'') ''build_win'',
       install_dir = ''install_x86_64'',
       architecture = ''x64'',
       compiler_version = 16,
       use_conan = True,
       download = True,
       config = ''Release'',
       vs_version = ''vc16'',
       generator = ''Visual Studio 16 2019'',
       compiler_flags = [],
       conan_set_arch = [],
       onnxruntime_flags = [],
       set_architecture = ''-A x64'',
       skip_deps = None,
       conan_path = None \<rparr>"

text \<open>
  The namespace that \<^verbatim>\<open>argparse\<close> returns. \<^verbatim>\<open>argparse\<close> itself is a library and is not
  modelled: it rejects every command line whose values are outside the declared
  \<^verbatim>\<open>choices\<close> (x64 or x86 for the architecture, 16 or 17 for the compiler), and the script
  starts from the namespace of an accepted command line.
\<close>

record args =
  arg_arch :: string
  arg_compiler :: int
  arg_debug :: bool
  arg_no_conan :: bool
  arg_no_download :: bool
  arg_skip_deps :: bool

definition default_args :: args where
  "default_args =
     \<lparr> arg_arch = ''x64'', arg_compiler = 16, arg_debug = False, arg_no_conan = False,
       arg_no_download = False, arg_skip_deps = False \<rparr>"

text \<open>\<^verbatim>\<open>parse_arguments\<close>, from \<^verbatim>\<open># Apply arguments\<close> on.\<close>

definition parse_arguments :: "args \<Rightarrow> builder \<Rightarrow> builder" where
  "parse_arguments a b =
     b\<lparr> architecture := arg_arch a,
        compiler_version := arg_compiler a,
        config := (if arg_debug a then ''Debug'' else ''Release''),
        use_conan := \<not> arg_no_conan a,
        download := \<not> arg_no_download a,
        skip_deps := Some (arg_skip_deps a) \<rparr>"

subsection \<open>Environment derivation\<close>

definition setup_environment :: "builder \<Rightarrow> builder io" where
  "setup_environment b =
     io_seq
       (print (SettingUp (architecture b) (compiler_version b) (config b) (use_conan b)
          (download b)))
       (let b1 =
              (if architecture b = ''x86'' then
                 b\<lparr> conan_set_arch := ''-s:a arch=x86'',
                    install_dir := ''install_x86'',
                    onnxruntime_flags := ''--x86'',
                    set_architecture := ''-A Win32'' \<rparr>
               else
                 b\<lparr> conan_set_arch := [],
                    install_dir := ''install_x86_64'',
                    onnxruntime_flags := [],
                    set_architecture := ''-A x64'' \<rparr>);
            b2 =
              (if compiler_version b1 = 16 then
                 b1\<lparr> generator := ''Visual Studio 16 2019'',
                     compiler_flags := [],
                     vs_version := ''vc16'' \<rparr>
               else
                 b1\<lparr> generator := ''Visual Studio 17 2022'',
                     compiler_flags := ''-s:a compiler.version=193'',
                     vs_version := ''vc17'' \<rparr>)
        in ret b2)"

subsection \<open>Prerequisite check\<close>

text \<open>The fallback locations of the package manager, in the order the script tries them.\<close>

text \<open>
  The candidates are written as raw Windows paths in the script; \<open>win_path\<close> joins
  components with the backslash character (code 0x5C).
\<close>

definition win_path :: "string list \<Rightarrow> path" where
  "win_path cs = foldr (\<lambda>c r. if r = [] then c else c @ [CHR 0x5C] @ r) cs []"

definition conan_paths :: "path list" where
  "conan_paths =
     [win_path [''C:'', ''tools'', ''conan-2.21.0-windows-x86_64'', ''conan.exe''],
      win_path [''C:'', ''Program Files'', ''Conan'', ''conan.exe''],
      win_path [''C:'', ''conan'', ''conan.exe'']]"

text \<open>
  The \<^verbatim>\<open>for conan_path in conan_paths\<close> loop. The result is the builder (whose
  \<^verbatim>\<open>conan_path\<close> the loop assigns before it probes a candidate) and \<^verbatim>\<open>conan_found\<close>.
\<close>

fun find_conan :: "world \<Rightarrow> builder \<Rightarrow> path list \<Rightarrow> (builder \<times> bool) io" where
  "find_conan w b [] = ret (b, False)"
| "find_conan w b (p # ps) =
     io_bind (exists w p) (\<lambda>present.
       if present then
         io_bind
           (try_except
              (io_bind (subprocess_run w [p, ''--version''] None False) (\<lambda>out.
                 io_seq (print (Prereq (ConanFoundAt (strip out) p))) (ret True)))
              [CalledProcessError, FileNotFoundError]
              (ret False))
           (\<lambda>found.
              if found then ret (b\<lparr>conan_path := Some p\<rparr>, True)
              else find_conan w (b\<lparr>conan_path := Some p\<rparr>) ps)
       else find_conan w b ps)"

text \<open>The \<^verbatim>\<open>if self.use_conan:\<close> block of \<^verbatim>\<open>check_prerequisites\<close>.\<close>

definition check_conan :: "world \<Rightarrow> builder \<Rightarrow> builder io" where
  "check_conan w b =
     try_except
       (io_bind (subprocess_run w [''conan'', ''--version''] None False) (\<lambda>out.
          io_seq (print (Prereq (ConanFound (strip out))))
            (ret (b\<lparr>conan_path := Some ''conan''\<rparr>))))
       [CalledProcessError, FileNotFoundError]
       (io_bind (find_conan w b conan_paths) (\<lambda>(b', conan_found).
          if \<not> conan_found then io_seq (print (Prereq ConanNotFound)) (sys_exit 1)
          else ret b'))"

definition required_tools :: "string list" where
  "required_tools = [''cmake'']"

text \<open>The \<^verbatim>\<open>for tool in required_tools\<close> loop; the accumulator is \<^verbatim>\<open>missing_tools\<close>.\<close>

fun check_tools :: "world \<Rightarrow> string list \<Rightarrow> string list \<Rightarrow> string list io" where
  "check_tools w [] missing_tools = ret missing_tools"
| "check_tools w (tool # tools) missing_tools =
     io_bind
       (try_except
          (io_bind (subprocess_run w [tool, ''--version''] None False) (\<lambda>out.
             io_seq (print (Prereq (ToolFound tool (first_line out)))) (ret missing_tools)))
          [CalledProcessError, FileNotFoundError]
          (io_seq (print (Prereq (ToolNotFound tool))) (ret (missing_tools @ [tool]))))
       (\<lambda>missing_tools'. check_tools w tools missing_tools')"

definition check_prerequisites :: "world \<Rightarrow> builder \<Rightarrow> builder io" where
  "check_prerequisites w b =
     io_seq (print (Prereq CheckingPrerequisites))
       (io_bind (if use_conan b then check_conan w b else ret b) (\<lambda>b'.
          io_bind (check_tools w required_tools []) (\<lambda>missing_tools.
            io_seq
              (if missing_tools \<noteq> [] then
                 io_seq (print (Prereq (MissingRequiredTools missing_tools))) (sys_exit 1)
               else ret ())
              (io_seq
                 (if platform_system w \<noteq> ''Windows'' then print (Prereq PlatformWarning)
                  else ret ())
                 (io_seq (print (Prereq AllPrerequisitesSatisfied)) (ret b'))))))"

subsection \<open>Dependency acquisition\<close>

definition conan_profile_file :: "builder \<Rightarrow> string" where
  "conan_profile_file b =
     (if config b = ''Release'' then ''conan_profile_release.txt''
      else ''conan_profile_debug.txt'')"

text \<open>
  The methods \<^verbatim>\<open>_build_with_conan\<close> and \<^verbatim>\<open>_build_from_source\<close> are \<open>build_with_conan\<close> and
  \<open>build_from_source\<close> here (a name cannot start with an underscore). First the command
  line that \<^verbatim>\<open>_build_with_conan\<close> assembles, for the detected executable.
\<close>

definition conan_command :: "world \<Rightarrow> builder \<Rightarrow> string \<Rightarrow> string list" where
  "conan_command w b exe =
     (let profile_path = pjoin w (pjoin w (root_dir b) ''conan'') (conan_profile_file b);
          cmd =
            [exe, ''install'', pjoin w (pjoin w (root_dir b) ''conan'') ''conanfile.txt'',
             ''--build'', ''missing'',
             ''--profile:build'', profile_path,
             ''--profile:host'', profile_path,
             ''--output-folder='' @ pjoin w (pjoin w (root_dir b) ''build'') ''conan''];
          cmd1 = (if compiler_flags b \<noteq> [] then cmd @ split_ws (compiler_flags b) else cmd);
          cmd2 = (if conan_set_arch b \<noteq> [] then cmd1 @ split_ws (conan_set_arch b) else cmd1)
      in cmd2)"

definition build_with_conan :: "world \<Rightarrow> builder \<Rightarrow> unit io" where
  "build_with_conan w b =
     (let conan_dir = pjoin w (pjoin w (root_dir b) ''build'') ''conan'' in
      io_seq
        (io_bind (exists w conan_dir) (\<lambda>present.
           if present then io_seq (print (Deps CleaningConanCache)) (emit (Rmtree conan_dir))
           else ret ()))
        (case conan_path b of
           None \<Rightarrow> raise AttributeError
         | Some exe \<Rightarrow>
             (let cmd = conan_command w b exe in
              io_seq (print (Running cmd))
                (try_except
                   (io_seq (subprocess_run w cmd (Some (root_dir b)) False)
                      (print (Deps ConanBuilt)))
                   [CalledProcessError]
                   (io_seq (print (Deps ConanBuildFailed)) (sys_exit 1))))))"

text \<open>The three build steps of \<^verbatim>\<open>_build_from_source\<close>, each with its own \<^verbatim>\<open>try\<close>.\<close>

definition opencv_configure_command :: "builder \<Rightarrow> string list" where
  "opencv_configure_command b =
     [''cmake'', ''-S'', ''.'', ''-G'', generator b, set_architecture b, ''-B'', ''build'',
      ''-DBUILD_LIST=core,calib3d,imgcodecs,improc,dnn,ml'',
      ''-DBUILD_opencv_apps=OFF'',
      ''-DBUILD_opencv_java=OFF'', ''-DBUILD_opencv_python=OFF'', ''-DWITH_FFMPEG=OFF'',
      ''-DWITH_TIFF=OFF'',
      ''-DWITH_WEBP=OFF'', ''-DBUILD_IPP=OFF'', ''-DWITH_IPP=OFF'',
      ''-DWITH_OPENCL=OFF'', ''-DWITH_LAPACK=OFF'', ''-DWITH_QUIRC=OFF'',
      ''-DBUILD_ZLIB=ON'', ''-DWITH_ZLIB=ON'',
      ''-DBUILD_PNG=ON'', ''-DWITH_PNG=ON'',
      ''-DBUILD_JPEG=ON'', ''-DWITH_JPEG=ON'',
      ''-DBUILD_OPENEXR=OFF'', ''-DWITH_OPENEXR=OFF'',
      ''-DBUILD_SHARED_LIBS=OFF'', ''-DBUILD_WITH_STATIC_CRT=OFF'',
      ''-DWITH_ADE=OFF'', ''-DCMAKE_INSTALL_PREFIX=./build/install'']"

definition opencv_build_command :: "builder \<Rightarrow> string list" where
  "opencv_build_command b =
     [''cmake'', ''--build'', ''build'', ''--config'', config b, ''--target'', ''install'',
      ''-j'', ''8'']"

definition build_opencv :: "world \<Rightarrow> builder \<Rightarrow> path \<Rightarrow> unit io" where
  "build_opencv w b opencv_dir =
     (let opencv_build_dir = pjoin w opencv_dir ''build'' in
      io_seq (print (Deps BuildingOpenCV))
        (io_seq
           (io_bind (exists w opencv_build_dir) (\<lambda>present.
              if present then emit (Rmtree opencv_build_dir) else ret ()))
           (try_except
              (io_seq (subprocess_run w (opencv_configure_command b) (Some opencv_dir) False)
                 (io_seq (subprocess_run w (opencv_build_command b) (Some opencv_dir) False)
                    (print (Deps OpenCVBuilt))))
              [CalledProcessError]
              (io_seq (print (Deps OpenCVBuildFailed)) (sys_exit 1)))))"

definition gtest_configure_command :: "builder \<Rightarrow> string list" where
  "gtest_configure_command b =
     [''cmake'', ''-S'', ''.'', ''-G'', generator b, set_architecture b, ''-B'', ''build'',
      ''-DBUILD_GMOCK=OFF'', ''-DINSTALL_GTEST=OFF'', ''-DBUILD_SHARED_LIBS=ON'']"

definition gtest_build_command :: "builder \<Rightarrow> string list" where
  "gtest_build_command b = [''cmake'', ''--build'', ''build/googletest'', ''--config'', config b]"

definition build_googletest :: "world \<Rightarrow> builder \<Rightarrow> path \<Rightarrow> unit io" where
  "build_googletest w b gtest_dir =
     io_seq (print (Deps BuildingGoogleTest))
       (try_except
          (io_seq (subprocess_run w (gtest_configure_command b) (Some gtest_dir) False)
             (io_seq (subprocess_run w (gtest_build_command b) (Some gtest_dir) False)
                (print (Deps GoogleTestBuilt))))
          [CalledProcessError]
          (io_seq (print (Deps GoogleTestBuildFailed)) (sys_exit 1)))"

definition onnx_build_command :: "builder \<Rightarrow> string list" where
  "onnx_build_command b =
     (let cmd =
            [''build.bat'', ''--config'', config b, ''--build_shared_lib'', ''--parallel'',
             ''--compile_no_warning_as_error'', ''--skip_submodule_sync'',
             ''--cmake_generator'', ''Visual Studio 17 2022'', ''--update'', ''--build'']
      in if onnxruntime_flags b \<noteq> [] then cmd @ [onnxruntime_flags b] else cmd)"

definition build_onnxruntime :: "world \<Rightarrow> builder \<Rightarrow> path \<Rightarrow> unit io" where
  "build_onnxruntime w b onnx_dir =
     io_seq (print (Deps BuildingONNX))
       (try_except
          (io_seq (subprocess_run w (onnx_build_command b) (Some onnx_dir) True)
             (print (Deps ONNXBuilt)))
          [CalledProcessError]
          (io_seq (print (Deps ONNXBuildFailed)) (sys_exit 1)))"

text \<open>The dependency trees that \<^verbatim>\<open>_build_from_source\<close> looks for.\<close>

definition opencv_dir :: "world \<Rightarrow> builder \<Rightarrow> path" where
  "opencv_dir w b = pjoin w (pjoin w (root_dir b) ''extern'') ''opencv-4.5.5''"

definition gtest_dir :: "world \<Rightarrow> builder \<Rightarrow> path" where
  "gtest_dir w b = pjoin w (pjoin w (root_dir b) ''extern'') ''googletest''"

definition onnx_dir :: "world \<Rightarrow> builder \<Rightarrow> path" where
  "onnx_dir w b = pjoin w (pjoin w (root_dir b) ''extern'') ''onnxruntime''"

definition onnx_prebuilt :: "world \<Rightarrow> builder \<Rightarrow> path" where
  "onnx_prebuilt w b = pjoin w (pjoin w (root_dir b) ''extern'') ''onnxruntime-win-x64-1.17.3''"

text \<open>
  \<^verbatim>\<open>_build_from_source\<close>. The test \<^verbatim>\<open>onnx_dir.exists() or onnx_prebuilt.exists()\<close> asks for
  the prebuilt tree only when the source tree is absent.
\<close>

definition build_from_source :: "world \<Rightarrow> builder \<Rightarrow> unit io" where
  "build_from_source w b =
     io_seq (print (Deps BuildingFromSource))
       (io_bind (exists w (opencv_dir w b)) (\<lambda>have_opencv.
        io_bind (exists w (gtest_dir w b)) (\<lambda>have_gtest.
        io_bind (exists w (onnx_dir w b)) (\<lambda>have_onnx_dir.
        io_bind (if have_onnx_dir then ret True else exists w (onnx_prebuilt w b)) (\<lambda>have_onnx.
          (let available_deps =
                 (if have_opencv then [''OpenCV''] else []) @
                 (if have_gtest then [''GoogleTest''] else []) @
                 (if have_onnx then [''ONNX Runtime''] else []);
               missing_deps =
                 (if have_opencv then [] else [''OpenCV'']) @
                 (if have_gtest then [] else [''GoogleTest'']) @
                 (if have_onnx then [] else [''ONNX Runtime''])
           in
           io_seq (print (Deps (AvailableDependencies available_deps)))
             (io_seq (print (Deps (MissingDependencies missing_deps)))
                (io_seq
                   (if missing_deps \<noteq> [] then
                      io_seq (print (Deps (CannotBuildFromSource missing_deps))) (sys_exit 1)
                    else ret ())
                   (io_seq (print (Deps AllDependenciesFound))
                      (io_seq (build_opencv w b (opencv_dir w b))
                         (io_seq (build_googletest w b (gtest_dir w b))
                            (build_onnxruntime w b (onnx_dir w b)))))))))))))"

definition build_dependencies :: "world \<Rightarrow> builder \<Rightarrow> unit io" where
  "build_dependencies w b =
     (case skip_deps b of
        None \<Rightarrow> raise AttributeError
      | Some skip \<Rightarrow>
          if skip then print (Deps SkippingDependencies)
          else
            io_seq (print (Deps (BuildingDependencies (use_conan b))))
              (if use_conan b then build_with_conan w b else build_from_source w b))"

subsection \<open>Configuration, compilation, verification\<close>

definition configure_command :: "builder \<Rightarrow> string list" where
  "configure_command b =
     [''cmake'', ''-S'', ''.'', ''-G'', generator b, set_architecture b, ''-B'', build_dir b,
      ''-DCMAKE_INSTALL_PREFIX='' @ install_dir b,
      ''-DDOWNLOAD_ONNX='' @ (if use_conan b then ''OFF'' else ''ON''),
      ''-DUSE_CONAN='' @ (if use_conan b then ''ON'' else ''OFF''),
      ''-DOS=windows'',
      ''-DCMAKE_BUILD_TYPE='' @ config b,
      ''-DARCHITECTURE='' @ architecture b,
      ''-DDOWNLOAD_MODELS_AND_IMAGES='' @ (if download b then ''ON'' else ''OFF''),
      ''-DVS_VERSION='' @ vs_version b]"

definition configure_cmake :: "world \<Rightarrow> builder \<Rightarrow> unit io" where
  "configure_cmake w b =
     io_seq (print (CMake ConfiguringCMake))
       (io_seq
          (io_bind (exists w (build_dir b)) (\<lambda>present.
             if present then
               io_seq (print (CMake (RemovingBuildDirectory (build_dir b))))
                 (emit (Rmtree (build_dir b)))
             else ret ()))
          (io_seq (emit (Mkdir (build_dir b)))
             (io_seq (print (Running (configure_command b)))
                (try_except
                   (io_seq (subprocess_run w (configure_command b) (Some (root_dir b)) False)
                      (print (CMake CMakeConfigured)))
                   [CalledProcessError]
                   (io_seq (print (CMake CMakeConfigurationFailed)) (sys_exit 1))))))"

definition build_command :: "builder \<Rightarrow> string list" where
  "build_command b =
     [''cmake'', ''--build'', build_dir b, ''--config'', config b,
      ''--target'', ''install'', ''-j'', ''8'']"

definition build_project :: "world \<Rightarrow> builder \<Rightarrow> unit io" where
  "build_project w b =
     io_seq (print (CMake (BuildingProject (config b))))
       (io_seq (print (Running (build_command b)))
          (try_except
             (io_seq (subprocess_run w (build_command b) (Some (root_dir b)) False)
                (print (CMake ProjectBuilt)))
             [CalledProcessError]
             (io_seq (print (CMake ProjectBuildFailed)) (sys_exit 1))))"

definition install_bin_dir :: "world \<Rightarrow> builder \<Rightarrow> path" where
  "install_bin_dir w b =
     (if config b = ''Debug'' then
        pjoin w (pjoin w (pjoin w (root_dir b) (install_dir b)) ''Debug'') ''bin''
      else pjoin w (pjoin w (pjoin w (root_dir b) (install_dir b)) ''Release'') ''bin'')"

definition verify_build :: "world \<Rightarrow> builder \<Rightarrow> unit io" where
  "verify_build w b =
     (let ofiq_lib_path = pjoin w (install_bin_dir w b) ''ofiq_lib.dll'';
          sample_app_path = pjoin w (install_bin_dir w b) ''OFIQSampleApp.exe''
      in
      io_seq (print (Verify VerifyingBuild))
        (io_seq
           (io_bind (exists w ofiq_lib_path) (\<lambda>have_lib.
              if have_lib then
                io_seq (print (Verify (LibraryFound ofiq_lib_path)))
                  (io_seq (emit (Stat ofiq_lib_path))
                     (print (Verify (FileSize (file_size w ofiq_lib_path)))))
              else
                io_seq (print (Verify (LibraryNotFound ofiq_lib_path)))
                  (io_seq
                     (io_bind (exists w (install_bin_dir w b)) (\<lambda>have_dir.
                        if have_dir then
                          io_seq (emit (Iterdir (install_bin_dir w b)))
                            (print (Verify (FilesInDirectory (list_dir w (install_bin_dir w b)))))
                        else ret ()))
                     (sys_exit 1))))
           (io_seq
              (io_bind (exists w sample_app_path) (\<lambda>have_app.
                 if have_app then print (Verify (SampleAppFound sample_app_path))
                 else print (Verify SampleAppNotFound)))
              (print (Verify VerificationCompleted)))))"

subsection \<open>The main flow\<close>

text \<open>The body of the \<^verbatim>\<open>try\<close> in \<^verbatim>\<open>run\<close>, from the parsed arguments on.\<close>

definition run_stages :: "world \<Rightarrow> args \<Rightarrow> builder \<Rightarrow> unit io" where
  "run_stages w a b0 =
     io_bind (setup_environment (parse_arguments a b0)) (\<lambda>b1.
       io_bind (check_prerequisites w b1) (\<lambda>b.
         io_seq (build_dependencies w b)
           (io_seq (configure_cmake w b)
              (io_seq (build_project w b)
                 (io_seq (verify_build w b)
                    (print (BuildSuccessful (pjoin w (root_dir b) (install_dir b)))))))))"

text \<open>
  \<^verbatim>\<open>try: m except Exception as e: h e\<close>. Every exception of the model is an \<^verbatim>\<open>Exception\<close>;
  \<^verbatim>\<open>SystemExit\<close> is not and passes through. (\<^verbatim>\<open>KeyboardInterrupt\<close> arrives from outside the
  program and is not modelled.)
\<close>

definition try_except_as :: "'a io \<Rightarrow> (exn \<Rightarrow> 'a io) \<Rightarrow> 'a io" where
  "try_except_as m h =
     (case m of
        (t, Raised e) \<Rightarrow> (case h e of (t', r) \<Rightarrow> (t @ t', r))
      | (t, r) \<Rightarrow> (t, r))"

definition run :: "world \<Rightarrow> args \<Rightarrow> builder \<Rightarrow> unit io" where
  "run w a b0 =
     io_seq (print Banner)
       (try_except_as (run_stages w a b0)
          (\<lambda>e. io_seq (print (BuildFailedWithError e)) (sys_exit 1)))"

definition main :: "world \<Rightarrow> args \<Rightarrow> unit io" where
  "main w a = run w a (init_builder w)"

text \<open>
  The exit status of the process: 0 when \<^verbatim>\<open>main\<close> returns, the argument of \<^verbatim>\<open>sys.exit\<close>
  otherwise (and 1 for an exception that nothing catches, which \<^verbatim>\<open>run\<close> excludes).
\<close>

definition exit_status :: "unit io \<Rightarrow> nat" where
  "exit_status m = (case snd m of Return _ \<Rightarrow> 0 | SysExit n \<Rightarrow> n | Raised _ \<Rightarrow> 1)"

text \<open>The effects of a piece of the script, in order.\<close>

definition trace :: "'a io \<Rightarrow> event list" where
  "trace m = fst m"

section \<open>Vocabulary of the properties\<close>

subsection \<open>Outcomes\<close>

text \<open>The value a piece of the script returns, if it returns.\<close>

definition result_of :: "'a io \<Rightarrow> 'a option" where
  "result_of m = (case snd m of Return x \<Rightarrow> Some x | _ \<Rightarrow> None)"

text \<open>
  How the \<^verbatim>\<open>try\<close> block of a build step ends when \<^verbatim>\<open>subprocess.run\<close> raises \<open>e\<close>: a
  \<^verbatim>\<open>CalledProcessError\<close> is caught and answered with \<^verbatim>\<open>sys.exit(1)\<close>, anything else leaves the
  method as an exception (and reaches the handler of \<^verbatim>\<open>run\<close>).
\<close>

definition failure :: "exn \<Rightarrow> unit result" where
  "failure e = (if e = CalledProcessError then SysExit 1 else Raised e)"

text \<open>The subprocess invocations of a trace, in order: command line and working directory.\<close>

fun subprocesses :: "event list \<Rightarrow> (string list \<times> path option) list" where
  "subprocesses [] = []"
| "subprocesses (Subprocess argv cwd shell # es) = (argv, cwd) # subprocesses es"
| "subprocesses (e # es) = subprocesses es"

subsection \<open>The builder after the first two stages\<close>

text \<open>
  The attributes that \<^verbatim>\<open>setup_environment\<close> assigns: generator, install directory,
  architecture flag, compiler-version tag, compiler flags, package-manager architecture
  flag, inference-runtime flag.
\<close>

definition derived_fields :: "builder \<Rightarrow> string list" where
  "derived_fields b =
     [generator b, install_dir b, set_architecture b, vs_version b, compiler_flags b,
      conan_set_arch b, onnxruntime_flags b]"

text \<open>
  The builder that \<^verbatim>\<open>run\<close> hands to \<^verbatim>\<open>check_prerequisites\<close>: a fresh object after
  \<^verbatim>\<open>parse_arguments\<close> and \<^verbatim>\<open>setup_environment\<close> (which always returns, see
  \<open>setup_environment_eq\<close> below).
\<close>

definition configured :: "world \<Rightarrow> args \<Rightarrow> builder" where
  "configured w a = the (result_of (setup_environment (parse_arguments a (init_builder w))))"

text \<open>The calls of \<^verbatim>\<open>run\<close> that follow \<^verbatim>\<open>check_prerequisites\<close>.\<close>

definition stages_from_dependencies :: "world \<Rightarrow> builder \<Rightarrow> unit io" where
  "stages_from_dependencies w b =
     io_seq (build_dependencies w b)
       (io_seq (configure_cmake w b)
          (io_seq (build_project w b)
             (io_seq (verify_build w b)
                (print (BuildSuccessful (pjoin w (root_dir b) (install_dir b)))))))"

subsection \<open>Tools\<close>

text \<open>
  A version probe of \<open>exe\<close> fails in one of the two ways the script catches (the
  executable is not found, or it exits with a non-zero status), or it succeeds.
\<close>

definition probe_fails :: "world \<Rightarrow> string \<Rightarrow> bool" where
  "probe_fails w exe \<longleftrightarrow>
     proc w [exe, ''--version''] None = Inl CalledProcessError \<or>
     proc w [exe, ''--version''] None = Inl FileNotFoundError"

definition probe_succeeds :: "world \<Rightarrow> string \<Rightarrow> bool" where
  "probe_succeeds w exe \<longleftrightarrow>
     (case proc w [exe, ''--version''] None of Inr _ \<Rightarrow> True | Inl _ \<Rightarrow> False)"

text \<open>
  The package manager is found neither on the search path nor at a fallback location:
  each fallback file is absent, or is there and fails its probe.
\<close>

definition conan_unavailable :: "world \<Rightarrow> bool" where
  "conan_unavailable w \<longleftrightarrow>
     probe_fails w ''conan'' \<and>
     list_all (\<lambda>p. \<not> path_exists w p \<or> probe_fails w p) conan_paths"

text \<open>The effects of a fallback search that looks at every candidate.\<close>

definition conan_search_trace :: "world \<Rightarrow> path list \<Rightarrow> event list" where
  "conan_search_trace w ps =
     concat (map (\<lambda>p. if path_exists w p then [Exists p, Subprocess [p, ''--version''] None False]
                       else [Exists p]) ps)"

text \<open>The same machine, reporting \<^verbatim>\<open>Windows\<close> as its platform.\<close>

definition on_windows :: "world \<Rightarrow> world" where
  "on_windows w = w\<lparr>platform_system := ''Windows''\<rparr>"

subsection \<open>Dependencies built from source\<close>

text \<open>
  The lists \<^verbatim>\<open>available_deps\<close> and \<^verbatim>\<open>missing_deps\<close> of \<^verbatim>\<open>_build_from_source\<close>, the presence
  checks it performs, and its three build steps with the five commands they run.
\<close>

definition available_deps :: "world \<Rightarrow> builder \<Rightarrow> string list" where
  "available_deps w b =
     (if path_exists w (opencv_dir w b) then [''OpenCV''] else []) @
     (if path_exists w (gtest_dir w b) then [''GoogleTest''] else []) @
     (if path_exists w (onnx_dir w b) \<or> path_exists w (onnx_prebuilt w b) then [''ONNX Runtime'']
      else [])"

definition missing_deps :: "world \<Rightarrow> builder \<Rightarrow> string list" where
  "missing_deps w b =
     (if path_exists w (opencv_dir w b) then [] else [''OpenCV'']) @
     (if path_exists w (gtest_dir w b) then [] else [''GoogleTest'']) @
     (if path_exists w (onnx_dir w b) \<or> path_exists w (onnx_prebuilt w b) then []
      else [''ONNX Runtime''])"

definition presence_checks :: "world \<Rightarrow> builder \<Rightarrow> event list" where
  "presence_checks w b =
     [Exists (opencv_dir w b), Exists (gtest_dir w b), Exists (onnx_dir w b)] @
     (if path_exists w (onnx_dir w b) then [] else [Exists (onnx_prebuilt w b)])"

definition source_builds :: "world \<Rightarrow> builder \<Rightarrow> unit io" where
  "source_builds w b =
     io_seq (build_opencv w b (opencv_dir w b))
       (io_seq (build_googletest w b (gtest_dir w b))
          (build_onnxruntime w b (onnx_dir w b)))"

definition source_build_steps :: "world \<Rightarrow> builder \<Rightarrow> (string list \<times> path option) list" where
  "source_build_steps w b =
     [(opencv_configure_command b, Some (opencv_dir w b)),
      (opencv_build_command b, Some (opencv_dir w b)),
      (gtest_configure_command b, Some (gtest_dir w b)),
      (gtest_build_command b, Some (gtest_dir w b)),
      (onnx_build_command b, Some (onnx_dir w b))]"

definition succeeds :: "world \<Rightarrow> string list \<times> path option \<Rightarrow> bool" where
  "succeeds w step = (case proc w (fst step) (snd step) of Inr _ \<Rightarrow> True | Inl _ \<Rightarrow> False)"

subsection \<open>Paths of the package-manager cache and of the artifacts\<close>

definition conan_dir :: "world \<Rightarrow> builder \<Rightarrow> path" where
  "conan_dir w b = pjoin w (pjoin w (root_dir b) ''build'') ''conan''"

definition ofiq_lib_path :: "world \<Rightarrow> builder \<Rightarrow> path" where
  "ofiq_lib_path w b = pjoin w (install_bin_dir w b) ''ofiq_lib.dll''"

definition sample_app_path :: "world \<Rightarrow> builder \<Rightarrow> path" where
  "sample_app_path w b = pjoin w (install_bin_dir w b) ''OFIQSampleApp.exe''"

subsection \<open>Sample machines and command lines\<close>

text \<open>A machine on which every tool answers and every path exists.\<close>

definition w0 :: world where
  "w0 = \<lparr> script_root = ''/repo'', os_sep = ''/'', platform_system = ''Windows'',
     proc = (\<lambda>argv cwd. Inr ''3.28.1''), path_exists = (\<lambda>p. True),
     list_dir = (\<lambda>p. []), file_size = (\<lambda>p. 42) \<rparr>"

text \<open>A machine with no tool installed and an empty disk.\<close>

definition w_bare :: world where
  "w_bare = w0\<lparr> path_exists := (\<lambda>p. False), proc := (\<lambda>argv cwd. Inl FileNotFoundError) \<rparr>"

text \<open>The same tools on a platform that is not Windows.\<close>

definition w_linux :: world where
  "w_linux = w0\<lparr>platform_system := ''Linux''\<rparr>"


text \<open>Every command started in the repository root exits with a non-zero status.\<close>

definition w_conan_fails :: world where
  "w_conan_fails =
     w0\<lparr>proc := (\<lambda>argv cwd. if cwd = Some ''/repo'' then Inl CalledProcessError
                              else Inr ''2.21.0'')\<rparr>"

text \<open>The tools answer, but no file or directory the script asks for exists.\<close>

definition w_fresh_checkout :: world where
  "w_fresh_checkout = w0\<lparr>path_exists := (\<lambda>p. False)\<rparr>"

text \<open>
  Only the prebuilt inference runtime is there, not its source tree; a process cannot be
  started in the missing directory.
\<close>

definition w_prebuilt_only :: world where
  "w_prebuilt_only =
     w0\<lparr>path_exists := (\<lambda>p. p \<noteq> ''/repo/extern/onnxruntime''),
        proc := (\<lambda>argv cwd. if cwd = Some ''/repo/extern/onnxruntime''
                              then Inl FileNotFoundError else Inr ''ok'')\<rparr>"

text \<open>Every command started in the GoogleTest tree exits with a non-zero status.\<close>

definition w_gtest_fails :: world where
  "w_gtest_fails =
     w0\<lparr>proc := (\<lambda>argv cwd. if cwd = Some ''/repo/extern/googletest''
                              then Inl CalledProcessError else Inr ''ok'')\<rparr>"

text \<open>The build leaves the sample executable but no library, or the library alone.\<close>

definition w_library_missing :: world where
  "w_library_missing =
     w0\<lparr>path_exists := (\<lambda>p. p \<noteq> ''/repo/install_x86_64/Release/bin/ofiq_lib.dll''),
        list_dir := (\<lambda>p. [''OFIQSampleApp.exe''])\<rparr>"

definition w_sample_missing :: world where
  "w_sample_missing =
     w0\<lparr>path_exists := (\<lambda>p. p \<noteq> ''/repo/install_x86_64/Release/bin/OFIQSampleApp.exe'')\<rparr>"

text \<open>\<^verbatim>\<open>--no-conan\<close>; \<^verbatim>\<open>--no-conan --skip-deps\<close>; \<^verbatim>\<open>--arch x86 --compiler 17 --debug\<close>.\<close>

definition source_args :: args where
  "source_args = default_args\<lparr>arg_no_conan := True\<rparr>"

definition skip_args :: args where
  "skip_args = default_args\<lparr>arg_no_conan := True, arg_skip_deps := True\<rparr>"

definition cross_args :: args where
  "cross_args = default_args\<lparr>arg_arch := ''x86'', arg_compiler := 17, arg_debug := True\<rparr>"

section \<open>Properties\<close>

subsection \<open>Sequencing\<close>

text \<open>
  How the combinators act on a piece of the script that is given as a pair, and what the
  trace and the outcome of a composed piece are in terms of its parts.
\<close>

named_theorems io_simps

lemma io_bind_pair [io_simps]:
  "io_bind (t, Return x) f = (t @ fst (f x), snd (f x))"
  "io_bind (t, SysExit n) f = (t, SysExit n)"
  "io_bind (t, Raised e) f = (t, Raised e)"
  by (simp_all add: io_bind_def case_prod_beta)

lemma io_seq_pair [io_simps]:
  "io_seq (t, Return x) k = (t @ fst k, snd k)"
  "io_seq (t, SysExit n) k = (t, SysExit n)"
  "io_seq (t, Raised e) k = (t, Raised e)"
  by (simp_all add: io_seq_def io_bind_pair)

lemma try_except_pair [io_simps]:
  "try_except (t, Return x) cs h = (t, Return x)"
  "try_except (t, SysExit n) cs h = (t, SysExit n)"
  "try_except (t, Raised e) cs h = (if e \<in> set cs then (t @ fst h, snd h) else (t, Raised e))"
  by (simp_all add: try_except_def case_prod_beta)

lemma try_except_as_pair [io_simps]:
  "try_except_as (t, Return x) h = (t, Return x)"
  "try_except_as (t, SysExit n) h = (t, SysExit n)"
  "try_except_as (t, Raised e) h = (t @ fst (h e), snd (h e))"
  by (simp_all add: try_except_as_def case_prod_beta)

lemmas io_prims = ret_def emit_def print_def sys_exit_def raise_def exists_def

lemma trace_pair: "trace (t, r) = t"
  by (simp add: trace_def)

lemma trace_io_bind:
  "trace (io_bind m f) = trace m @ (case snd m of Return x \<Rightarrow> trace (f x) | _ \<Rightarrow> [])"
  by (cases m; cases "snd m") (auto simp add: trace_def io_simps)

lemma snd_io_bind:
  "snd (io_bind m f) =
     (case snd m of Return x \<Rightarrow> snd (f x) | SysExit n \<Rightarrow> SysExit n | Raised e \<Rightarrow> Raised e)"
  by (cases m; cases "snd m") (auto simp add: io_simps)

lemma trace_io_seq:
  "trace (io_seq m k) = trace m @ (case snd m of Return x \<Rightarrow> trace k | _ \<Rightarrow> [])"
  by (simp add: io_seq_def trace_io_bind)

lemma snd_io_seq:
  "snd (io_seq m k) =
     (case snd m of Return x \<Rightarrow> snd k | SysExit n \<Rightarrow> SysExit n | Raised e \<Rightarrow> Raised e)"
  by (simp add: io_seq_def snd_io_bind)

lemma trace_try_except:
  "trace (try_except m cs h) =
     trace m @ (case snd m of Raised e \<Rightarrow> if e \<in> set cs then trace h else [] | _ \<Rightarrow> [])"
  by (cases m; cases "snd m") (auto simp add: io_simps trace_def)

lemma snd_try_except:
  "snd (try_except m cs h) =
     (case snd m of Raised e \<Rightarrow> if e \<in> set cs then snd h else Raised e | r \<Rightarrow> r)"
  by (cases m; cases "snd m") (auto simp add: io_simps)

lemma trace_try_except_as:
  "trace (try_except_as m h) = trace m @ (case snd m of Raised e \<Rightarrow> trace (h e) | r \<Rightarrow> [])"
  by (cases m; cases "snd m") (auto simp add: io_simps trace_def)

lemma snd_try_except_as:
  "snd (try_except_as m h) = (case snd m of Raised e \<Rightarrow> snd (h e) | r \<Rightarrow> r)"
  by (cases m; cases "snd m") (auto simp add: io_simps)

lemma trace_prims:
  "trace (ret x) = []"
  "trace (emit e) = [e]"
  "trace (print m) = [Print m]"
  "trace (sys_exit n) = []"
  "trace (raise ex) = []"
  "trace (exists w p) = [Exists p]"
  "trace (subprocess_run w argv cwd sh) = [Subprocess argv cwd sh]"
  by (simp_all add: trace_def io_prims subprocess_run_def)

lemma snd_prims:
  "snd (ret x) = Return x"
  "snd (emit e) = Return ()"
  "snd (print m) = Return ()"
  "snd (sys_exit n) = SysExit n"
  "snd (raise ex) = Raised ex"
  "snd (exists w p) = Return (path_exists w p)"
  "snd (subprocess_run w argv cwd sh) =
     (case proc w argv cwd of Inl e \<Rightarrow> Raised e | Inr out \<Rightarrow> Return out)"
  by (simp_all add: io_prims subprocess_run_def)

lemmas io_trace = trace_io_bind trace_io_seq trace_try_except trace_try_except_as trace_prims

lemmas io_result = snd_io_bind snd_io_seq snd_try_except snd_try_except_as snd_prims

lemma subprocesses_append [simp]:
  "subprocesses (xs @ ys) = subprocesses xs @ subprocesses ys"
  by (induction xs rule: subprocesses.induct) simp_all

lemma failure_not_Return [simp]: "failure e \<noteq> Return x"
  by (simp add: failure_def)

subsection \<open>Environment derivation\<close>

lemma setup_environment_eq:
  "setup_environment b =
     ([Print (SettingUp (architecture b) (compiler_version b) (config b) (use_conan b) (download b))],
      Return (b\<lparr> conan_set_arch := (if architecture b = ''x86'' then ''-s:a arch=x86'' else []),
         install_dir := (if architecture b = ''x86'' then ''install_x86'' else ''install_x86_64''),
         onnxruntime_flags := (if architecture b = ''x86'' then ''--x86'' else []),
         set_architecture := (if architecture b = ''x86'' then ''-A Win32'' else ''-A x64''),
         generator := (if compiler_version b = 16 then ''Visual Studio 16 2019'' else ''Visual Studio 17 2022''),
         compiler_flags := (if compiler_version b = 16 then [] else ''-s:a compiler.version=193''),
         vs_version := (if compiler_version b = 16 then ''vc16'' else ''vc17'') \<rparr>))"
  by (simp add: setup_environment_def io_prims io_simps Let_def)

lemma derived_fields_setup:
  "map_option derived_fields (result_of (setup_environment b)) =
     Some [if compiler_version b = 16 then ''Visual Studio 16 2019'' else ''Visual Studio 17 2022'',
           if architecture b = ''x86'' then ''install_x86'' else ''install_x86_64'',
           if architecture b = ''x86'' then ''-A Win32'' else ''-A x64'',
           if compiler_version b = 16 then ''vc16'' else ''vc17'',
           if compiler_version b = 16 then [] else ''-s:a compiler.version=193'',
           if architecture b = ''x86'' then ''-s:a arch=x86'' else [],
           if architecture b = ''x86'' then ''--x86'' else []]"
  by (simp add: setup_environment_eq result_of_def derived_fields_def)

lemma setup_environment_idem:
  "result_of (setup_environment b) = Some d \<Longrightarrow> result_of (setup_environment d) = Some d"
  by (auto simp add: setup_environment_eq result_of_def)

text \<open>
  Claim C1. The derived fields are a function of the architecture and the compiler version
  alone: two builders that agree on these two attributes leave \<^verbatim>\<open>setup_environment\<close> with
  the same generator, install directory, architecture flag, compiler-version tag and flag
  strings, whatever their derived fields held before (none of them survives the call);
  \<^verbatim>\<open>setup_environment\<close> always returns; running it again on its own result changes
  nothing; and the default arguments (x64, 16, Release) give the generator
  "Visual Studio 16 2019", the install directory "install_x86_64" and the architecture
  flag "-A x64". The statement holds for every value of the two attributes, so in
  particular for the eight valid combinations of architecture, compiler version and
  build type.
\<close>

theorem derived_fields_function_of_enums:
  assumes "architecture b = architecture b'" and "compiler_version b = compiler_version b'"
  shows "\<exists>d d'. result_of (setup_environment b) = Some d \<and>
           result_of (setup_environment b') = Some d' \<and>
           derived_fields d = derived_fields d' \<and>
           result_of (setup_environment d) = Some d \<and>
           map_option derived_fields
               (result_of (setup_environment (parse_arguments default_args b))) =
             Some [''Visual Studio 16 2019'', ''install_x86_64'', ''-A x64'', ''vc16'', [], [], []]"
proof -
  obtain d where d: "result_of (setup_environment b) = Some d"
    by (simp add: setup_environment_eq result_of_def)
  obtain d' where d': "result_of (setup_environment b') = Some d'"
    by (simp add: setup_environment_eq result_of_def)
  have "map_option derived_fields (result_of (setup_environment b)) =
        map_option derived_fields (result_of (setup_environment b'))"
    by (simp only: derived_fields_setup assms)
  with d d' have eq: "derived_fields d = derived_fields d'" by simp
  have idem: "result_of (setup_environment d) = Some d"
    using d by (rule setup_environment_idem)
  have dflt: "map_option derived_fields
               (result_of (setup_environment (parse_arguments default_args b))) =
             Some [''Visual Studio 16 2019'', ''install_x86_64'', ''-A x64'', ''vc16'', [], [], []]"
    by (simp add: derived_fields_setup parse_arguments_def default_args_def)
  from d d' eq idem dflt show ?thesis by blast
qed

theorem derived_fields_function_of_enums_witness:
  "\<exists>d d'. result_of (setup_environment (init_builder w0)) = Some d \<and>
           result_of (setup_environment ((init_builder w0)\<lparr>generator := ''stale'', install_dir := ''stale''\<rparr>)) = Some d' \<and>
           derived_fields d = derived_fields d' \<and>
           result_of (setup_environment d) = Some d \<and>
           map_option derived_fields
               (result_of (setup_environment (parse_arguments default_args (init_builder w0)))) =
             Some [''Visual Studio 16 2019'', ''install_x86_64'', ''-A x64'', ''vc16'', [], [], []]"
  using derived_fields_function_of_enums [of "init_builder w0" "(init_builder w0)\<lparr>generator := ''stale'', install_dir := ''stale''\<rparr>"]
  by (simp add: init_builder_def)

text \<open>
  Claim C2 says that switching the architecture from x64 to x86 changes the install
  directory and the architecture flag and no other derived field. With the default
  arguments the package-manager architecture flag goes from the empty string to
  "-s:a arch=x86" and the inference-runtime flag from the empty string to "--x86".
\<close>

theorem architecture_switch_changes_flags:
  "map_option conan_set_arch (result_of (setup_environment
      (parse_arguments (default_args\<lparr>arg_arch := ''x86''\<rparr>) (init_builder w0)))) =
     Some ''-s:a arch=x86'' \<and>
   map_option conan_set_arch (result_of (setup_environment
      (parse_arguments default_args (init_builder w0)))) = Some [] \<and>
   map_option onnxruntime_flags (result_of (setup_environment
      (parse_arguments (default_args\<lparr>arg_arch := ''x86''\<rparr>) (init_builder w0)))) =
     Some ''--x86'' \<and>
   map_option onnxruntime_flags (result_of (setup_environment
      (parse_arguments default_args (init_builder w0)))) = Some []"
  by (simp add: setup_environment_eq result_of_def parse_arguments_def default_args_def)

text \<open>
  Claim C2, amended. With all other inputs fixed, switching the architecture from x64 to
  x86 changes the install directory, the architecture flag, the package-manager
  architecture flag and the inference-runtime flag; the generator, the compiler-version tag
  and the compiler flags are unchanged, and so is every attribute of the builder other
  than the architecture itself and these four.
\<close>

theorem architecture_switch_frame:
  "\<exists>d64 d86.
     result_of (setup_environment (parse_arguments (a\<lparr>arg_arch := ''x64''\<rparr>) b)) = Some d64 \<and>
     result_of (setup_environment (parse_arguments (a\<lparr>arg_arch := ''x86''\<rparr>) b)) = Some d86 \<and>
     install_dir d86 \<noteq> install_dir d64 \<and>
     set_architecture d86 \<noteq> set_architecture d64 \<and>
     conan_set_arch d86 \<noteq> conan_set_arch d64 \<and>
     onnxruntime_flags d86 \<noteq> onnxruntime_flags d64 \<and>
     generator d86 = generator d64 \<and>
     vs_version d86 = vs_version d64 \<and>
     compiler_flags d86 = compiler_flags d64 \<and>
     d86\<lparr> architecture := architecture d64, install_dir := install_dir d64,
          set_architecture := set_architecture d64, conan_set_arch := conan_set_arch d64,
          onnxruntime_flags := onnxruntime_flags d64 \<rparr> = d64"
  by (simp add: setup_environment_eq result_of_def parse_arguments_def)

lemma setup_environment_configured:
  "setup_environment (parse_arguments a (init_builder w)) =
     ([Print (SettingUp (arg_arch a) (arg_compiler a) (if arg_debug a then ''Debug'' else ''Release'')
               (\<not> arg_no_conan a) (\<not> arg_no_download a))], Return (configured w a))"
  by (simp add: configured_def result_of_def setup_environment_eq parse_arguments_def)

lemma configured_fields:
  "skip_deps (configured w a) = Some (arg_skip_deps a)"
  "use_conan (configured w a) = (\<not> arg_no_conan a)"
  "root_dir (configured w a) = script_root w"
  "config (configured w a) = (if arg_debug a then ''Debug'' else ''Release'')"
  "install_dir (configured w a) = (if arg_arch a = ''x86'' then ''install_x86'' else ''install_x86_64'')"
  "compiler_flags (configured w a) =
     (if arg_compiler a = 16 then [] else ''-s:a compiler.version=193'')"
  "conan_set_arch (configured w a) = (if arg_arch a = ''x86'' then ''-s:a arch=x86'' else [])"
  "conan_path (configured w a) = None"
  by (simp_all add: configured_def result_of_def setup_environment_eq parse_arguments_def
        init_builder_def)

subsection \<open>The main flow\<close>

text \<open>
  \<^verbatim>\<open>main\<close> in terms of the prerequisite check and the stages after it: its exit status and
  its trace.
\<close>

lemma main_eq:
  "main w a =
     io_seq (print Banner)
       (try_except_as
          (io_seq (print (SettingUp (arg_arch a) (arg_compiler a)
                     (if arg_debug a then ''Debug'' else ''Release'')
                     (\<not> arg_no_conan a) (\<not> arg_no_download a)))
             (io_bind (check_prerequisites w (configured w a)) (stages_from_dependencies w)))
          (\<lambda>e. io_seq (print (BuildFailedWithError e)) (sys_exit 1)))"
proof -
  have "stages_from_dependencies w =
      (\<lambda>b. io_seq (build_dependencies w b)
         (io_seq (configure_cmake w b)
            (io_seq (build_project w b)
               (io_seq (verify_build w b)
                  (print (BuildSuccessful (pjoin w (root_dir b) (install_dir b))))))))"
    by (simp add: fun_eq_iff stages_from_dependencies_def)
  then show ?thesis
    by (simp add: main_def run_def run_stages_def setup_environment_configured
          io_seq_pair io_bind_pair print_def emit_def)
qed

lemma exit_status_main:
  "exit_status (main w a) =
     (case snd (check_prerequisites w (configured w a)) of
        Return b \<Rightarrow>
          (case snd (stages_from_dependencies w b) of
             Return _ \<Rightarrow> 0 | SysExit n \<Rightarrow> n | Raised _ \<Rightarrow> 1)
      | SysExit n \<Rightarrow> n
      | Raised _ \<Rightarrow> 1)"
  by (simp add: main_eq exit_status_def snd_io_seq snd_io_bind snd_try_except_as io_prims
        split: result.splits)

lemma trace_main:
  "trace (main w a) =
     Print Banner #
     Print (SettingUp (arg_arch a) (arg_compiler a) (if arg_debug a then ''Debug'' else ''Release'')
        (\<not> arg_no_conan a) (\<not> arg_no_download a)) #
     trace (check_prerequisites w (configured w a)) @
     (case snd (check_prerequisites w (configured w a)) of
        Return b \<Rightarrow>
          trace (stages_from_dependencies w b) @
          (case snd (stages_from_dependencies w b) of
             Raised e \<Rightarrow> [Print (BuildFailedWithError e)] | _ \<Rightarrow> [])
      | SysExit n \<Rightarrow> []
      | Raised e \<Rightarrow> [Print (BuildFailedWithError e)])"
  by (simp add: main_eq trace_io_seq trace_io_bind snd_io_seq snd_io_bind trace_try_except_as
        io_prims split: result.splits) (simp add: trace_def)

lemma trace_main_after_prerequisites:
  assumes "result_of (check_prerequisites w (configured w a)) = Some b"
  shows "\<exists>post. trace (main w a) =
     Print Banner #
     Print (SettingUp (arg_arch a) (arg_compiler a) (if arg_debug a then ''Debug'' else ''Release'')
        (\<not> arg_no_conan a) (\<not> arg_no_download a)) #
     trace (check_prerequisites w (configured w a)) @ trace (build_dependencies w b) @ post"
  using assms
  by (auto simp add: trace_main result_of_def stages_from_dependencies_def trace_io_seq
        split: result.splits)

lemma exit_status_main_deps_failure:
  assumes "result_of (check_prerequisites w (configured w a)) = Some b"
    and "snd (build_dependencies w b) = failure e"
  shows "exit_status (main w a) = 1"
  using assms
  by (auto simp add: exit_status_main result_of_def stages_from_dependencies_def snd_io_seq
        failure_def split: result.splits if_splits)

lemma trace_main_deps_failure:
  assumes "result_of (check_prerequisites w (configured w a)) = Some b"
    and "snd (build_dependencies w b) = failure e"
  shows "subprocesses (trace (main w a)) =
     subprocesses (trace (check_prerequisites w (configured w a))) @
     subprocesses (trace (build_dependencies w b))"
  using assms
  by (auto simp add: trace_main result_of_def stages_from_dependencies_def trace_io_seq
        snd_io_seq failure_def split: result.splits if_splits)

lemma exit_status_main_verify:
  assumes "result_of (check_prerequisites w (configured w a)) = Some b"
    and "snd (build_dependencies w b) = Return ()"
    and "snd (configure_cmake w b) = Return ()"
    and "snd (build_project w b) = Return ()"
  shows "exit_status (main w a) = exit_status (verify_build w b)"
  unfolding exit_status_main using assms
  by (auto simp add: exit_status_def result_of_def stages_from_dependencies_def
        snd_io_seq snd_prims split: result.splits)

subsection \<open>The prerequisite check\<close>

lemma trace_check_prerequisites:
  "trace (check_prerequisites w b) =
     Print (Prereq CheckingPrerequisites) #
     trace (if use_conan b then check_conan w b else ret b) @
     (case snd (if use_conan b then check_conan w b else ret b) of
        Return b' \<Rightarrow>
          trace (check_tools w required_tools []) @
          (case snd (check_tools w required_tools []) of
             Return missing_tools \<Rightarrow>
               (if missing_tools \<noteq> [] then [Print (Prereq (MissingRequiredTools missing_tools))]
                else (if platform_system w \<noteq> ''Windows'' then [Print (Prereq PlatformWarning)]
                      else []) @ [Print (Prereq AllPrerequisitesSatisfied)])
           | _ \<Rightarrow> [])
      | _ \<Rightarrow> [])"
  by (simp add: check_prerequisites_def io_trace io_result split: result.splits)

lemma snd_check_prerequisites:
  "snd (check_prerequisites w b) =
     (case snd (if use_conan b then check_conan w b else ret b) of
        Return b' \<Rightarrow>
          (case snd (check_tools w required_tools []) of
             Return missing_tools \<Rightarrow> if missing_tools \<noteq> [] then SysExit 1 else Return b'
           | SysExit n \<Rightarrow> SysExit n
           | Raised e \<Rightarrow> Raised e)
      | SysExit n \<Rightarrow> SysExit n
      | Raised e \<Rightarrow> Raised e)"
  by (simp add: check_prerequisites_def io_result split: result.splits)

lemma last_check_prerequisites:
  "result_of (check_prerequisites w b) = Some b' \<Longrightarrow>
     last (trace (check_prerequisites w b)) = Print (Prereq AllPrerequisitesSatisfied)"
  by (auto simp add: result_of_def snd_check_prerequisites trace_check_prerequisites
        split: result.splits if_splits)

text \<open>
  The prerequisite check returns the builder it was given, up to \<^verbatim>\<open>conan_path\<close>; with the
  package-manager strategy the returned builder has a \<^verbatim>\<open>conan_path\<close>.
\<close>

lemma find_conan_builder:
  "snd (find_conan w b ps) = Return (b', found) \<Longrightarrow> \<exists>cp. b' = b\<lparr>conan_path := cp\<rparr>"
proof (induction ps arbitrary: b)
  case Nil
  then have "b' = b\<lparr>conan_path := conan_path b\<rparr>" by (simp add: io_result)
  then show ?case by blast
next
  case (Cons p ps)
  show ?case
  proof (cases "snd (find_conan w b (p # ps)) = snd (find_conan w b ps)")
    case True
    with Cons show ?thesis by simp
  next
    case False
    with Cons.prems have
      "b' = b\<lparr>conan_path := Some p\<rparr> \<or>
       snd (find_conan w (b\<lparr>conan_path := Some p\<rparr>) ps) = Return (b', found)"
      by (auto simp add: io_result split: if_splits sum.splits result.splits)
    then show ?thesis
    proof
      assume "b' = b\<lparr>conan_path := Some p\<rparr>"
      then show ?thesis by blast
    next
      assume "snd (find_conan w (b\<lparr>conan_path := Some p\<rparr>) ps) = Return (b', found)"
      from Cons.IH [OF this] obtain cp where "b' = b\<lparr>conan_path := Some p, conan_path := cp\<rparr>"
        by blast
      then have "b' = b\<lparr>conan_path := cp\<rparr>" by simp
      then show ?thesis by blast
    qed
  qed
qed

lemma check_conan_builder:
  assumes "snd (check_conan w b) = Return b'"
  shows "\<exists>cp. b' = b\<lparr>conan_path := cp\<rparr>"
proof (cases "proc w [''conan'', ''--version''] None")
  case (Inr out)
  with assms have "b' = b\<lparr>conan_path := Some ''conan''\<rparr>"
    by (simp add: check_conan_def io_result)
  then show ?thesis by blast
next
  case (Inl e)
  with assms obtain found where "snd (find_conan w b conan_paths) = Return (b', found)"
    by (auto simp add: check_conan_def io_result case_prod_beta
          split: if_splits result.splits)
  then show ?thesis by (rule find_conan_builder)
qed

lemma check_prerequisites_builder:
  assumes "result_of (check_prerequisites w b) = Some b'"
  shows "\<exists>cp. b' = b\<lparr>conan_path := cp\<rparr>"
proof (cases "use_conan b")
  case True
  with assms have "snd (check_conan w b) = Return b'"
    by (auto simp add: result_of_def snd_check_prerequisites split: result.splits if_splits)
  then show ?thesis by (rule check_conan_builder)
next
  case False
  with assms have "b' = b\<lparr>conan_path := conan_path b\<rparr>"
    by (auto simp add: result_of_def snd_check_prerequisites snd_prims
          split: result.splits if_splits)
  then show ?thesis by blast
qed

lemma find_conan_found_path:
  "snd (find_conan w b ps) = Return (b', True) \<Longrightarrow> \<exists>exe. conan_path b' = Some exe"
proof (induction ps arbitrary: b)
  case Nil
  then show ?case by (simp add: io_result)
next
  case (Cons p ps)
  from Cons.prems have
    "b' = b\<lparr>conan_path := Some p\<rparr> \<or>
     snd (find_conan w b ps) = Return (b', True) \<or>
     snd (find_conan w (b\<lparr>conan_path := Some p\<rparr>) ps) = Return (b', True)"
    by (auto simp add: io_result split: if_splits sum.splits result.splits)
  then show ?case
  proof (elim disjE)
    assume "b' = b\<lparr>conan_path := Some p\<rparr>"
    then show ?thesis by simp
  next
    assume "snd (find_conan w b ps) = Return (b', True)"
    then show ?thesis by (rule Cons.IH)
  next
    assume "snd (find_conan w (b\<lparr>conan_path := Some p\<rparr>) ps) = Return (b', True)"
    then show ?thesis by (rule Cons.IH)
  qed
qed

lemma check_prerequisites_conan_path:
  assumes "use_conan b" and "result_of (check_prerequisites w b) = Some b'"
  shows "\<exists>exe. conan_path b' = Some exe"
proof -
  from assms have c: "snd (check_conan w b) = Return b'"
    by (auto simp add: result_of_def snd_check_prerequisites split: result.splits if_splits)
  show ?thesis
  proof (cases "proc w [''conan'', ''--version''] None")
    case (Inr out)
    with c have "b' = b\<lparr>conan_path := Some ''conan''\<rparr>"
      by (simp add: check_conan_def io_result)
    then show ?thesis by simp
  next
    case (Inl e)
    with c have "snd (find_conan w b conan_paths) = Return (b', True)"
      by (auto simp add: check_conan_def io_result case_prod_beta
            split: if_splits result.splits)
    then show ?thesis by (rule find_conan_found_path)
  qed
qed

lemma check_prerequisites_source_ok:
  assumes "\<not> use_conan b" and "probe_succeeds w ''cmake''"
  shows "result_of (check_prerequisites w b) = Some b"
  using assms
  by (simp add: result_of_def snd_check_prerequisites required_tools_def probe_succeeds_def
        io_result split: sum.splits)

lemma check_prerequisites_conan_ok:
  assumes "use_conan b" and "probe_succeeds w ''conan''" and "probe_succeeds w ''cmake''"
  shows "result_of (check_prerequisites w b) = Some (b\<lparr>conan_path := Some ''conan''\<rparr>)"
  using assms
  by (simp add: result_of_def snd_check_prerequisites check_conan_def required_tools_def
        probe_succeeds_def io_result split: sum.splits)

text \<open>What the check and the run do when the package manager is wanted and not found.\<close>

lemma find_conan_unavailable:
  "list_all (\<lambda>p. \<not> path_exists w p \<or> probe_fails w p) ps \<Longrightarrow>
     \<exists>b'. find_conan w b ps = (conan_search_trace w ps, Return (b', False))"
proof (induction ps arbitrary: b)
  case Nil
  show ?case by (simp add: conan_search_trace_def ret_def)
next
  case (Cons p ps)
  from Cons.prems have rest: "list_all (\<lambda>p. \<not> path_exists w p \<or> probe_fails w p) ps"
    and here: "\<not> path_exists w p \<or> probe_fails w p" by simp_all
  show ?case
  proof (cases "path_exists w p")
    case False
    from Cons.IH [OF rest, of b] obtain b' where
      "find_conan w b ps = (conan_search_trace w ps, Return (b', False))" by blast
    with False show ?thesis
      by (simp add: conan_search_trace_def io_prims io_simps)
  next
    case True
    with here have pf: "probe_fails w p" by simp
    from Cons.IH [OF rest, of "b\<lparr>conan_path := Some p\<rparr>"] obtain b' where
      "find_conan w (b\<lparr>conan_path := Some p\<rparr>) ps = (conan_search_trace w ps, Return (b', False))"
      by blast
    with True pf show ?thesis
      by (auto simp add: conan_search_trace_def probe_fails_def subprocess_run_def
            io_prims io_simps)
  qed
qed

lemma check_conan_unavailable:
  assumes "conan_unavailable w"
  shows "check_conan w b =
     (Subprocess [''conan'', ''--version''] None False # conan_search_trace w conan_paths @
        [Print (Prereq ConanNotFound)], SysExit 1)"
proof -
  from assms have pf: "probe_fails w ''conan''"
    and la: "list_all (\<lambda>p. \<not> path_exists w p \<or> probe_fails w p) conan_paths"
    by (simp_all add: conan_unavailable_def)
  from find_conan_unavailable [OF la, of b] obtain b' where
    fc: "find_conan w b conan_paths = (conan_search_trace w conan_paths, Return (b', False))"
    by blast
  from pf show ?thesis
    by (auto simp add: check_conan_def probe_fails_def subprocess_run_def fc io_prims io_simps)
qed

lemma check_prerequisites_conan_unavailable:
  assumes "use_conan b" and "conan_unavailable w"
  shows "check_prerequisites w b =
     (Print (Prereq CheckingPrerequisites) # Subprocess [''conan'', ''--version''] None False #
        conan_search_trace w conan_paths @ [Print (Prereq ConanNotFound)], SysExit 1)"
  using assms(1)
  by (simp add: check_prerequisites_def check_conan_unavailable [OF assms(2)] io_prims io_simps)

lemma conan_search_trace_events:
  "e \<in> set (conan_search_trace w ps) \<Longrightarrow>
     (\<exists>p. e = Exists p) \<or> (\<exists>p. e = Subprocess [p, ''--version''] None False)"
  by (auto simp add: conan_search_trace_def split: if_splits)

lemma main_conan_unavailable:
  assumes "\<not> arg_no_conan a" and "conan_unavailable w"
  shows "main w a =
     (Print Banner #
      Print (SettingUp (arg_arch a) (arg_compiler a) (if arg_debug a then ''Debug'' else ''Release'')
               True (\<not> arg_no_download a)) #
      Print (Prereq CheckingPrerequisites) # Subprocess [''conan'', ''--version''] None False #
      conan_search_trace w conan_paths @ [Print (Prereq ConanNotFound)], SysExit 1)"
proof -
  obtain b where b: "setup_environment (parse_arguments a (init_builder w)) =
      ([Print (SettingUp (arg_arch a) (arg_compiler a) (if arg_debug a then ''Debug'' else ''Release'')
               True (\<not> arg_no_download a))], Return b)" and uc: "use_conan b"
    using assms(1) by (simp add: setup_environment_eq parse_arguments_def)
  show ?thesis
    by (simp add: main_def run_def run_stages_def b
          check_prerequisites_conan_unavailable [OF uc assms(2)] io_prims io_simps)
qed

text \<open>
  Claim C3. With the package-manager strategy selected and the package manager found
  neither on the search path nor at any fallback location, the process exits with status 1,
  and its run never invokes the build-file generator: the CMake configuration stage is not
  entered, and the only subprocesses the run starts are version probes.
\<close>

theorem conan_unavailable_exits_before_configure:
  assumes "\<not> arg_no_conan a" and "conan_unavailable w"
  shows "exit_status (main w a) = 1 \<and>
         (\<forall>b cwd shell. Subprocess (configure_command b) cwd shell \<notin> set (trace (main w a))) \<and>
         Print (CMake ConfiguringCMake) \<notin> set (trace (main w a)) \<and>
         (\<forall>argv cwd shell. Subprocess argv cwd shell \<in> set (trace (main w a)) \<longrightarrow>
            (\<exists>exe. argv = [exe, ''--version'']))"
proof -
  note m = main_conan_unavailable [OF assms]
  have 1: "exit_status (main w a) = 1" by (simp add: m exit_status_def)
  have 4: "\<forall>argv cwd shell. Subprocess argv cwd shell \<in> set (trace (main w a)) \<longrightarrow>
            (\<exists>exe. argv = [exe, ''--version''])"
    by (auto simp add: m trace_def dest: conan_search_trace_events)
  have 2: "\<forall>b cwd shell. Subprocess (configure_command b) cwd shell \<notin> set (trace (main w a))"
    using 4 by (auto simp add: configure_command_def)
  have 3: "Print (CMake ConfiguringCMake) \<notin> set (trace (main w a))"
    by (auto simp add: m trace_def dest: conan_search_trace_events)
  from 1 2 3 4 show ?thesis by blast
qed

theorem conan_unavailable_exits_before_configure_witness:
  "exit_status (main w_bare default_args) = 1 \<and>
   Print (CMake ConfiguringCMake) \<notin> set (trace (main w_bare default_args))"
proof -
  have a: "\<not> arg_no_conan default_args" by (simp add: default_args_def)
  have u: "conan_unavailable w_bare"
    by (simp add: conan_unavailable_def probe_fails_def w_bare_def w0_def conan_paths_def)
  from conan_unavailable_exits_before_configure [OF a u] show ?thesis by blast
qed






subsection \<open>The platform test\<close>

text \<open>
  \<^verbatim>\<open>platform.system()\<close> is read once, in \<^verbatim>\<open>check_prerequisites\<close>; nothing else depends on it,
  and no other line prints the platform warning.
\<close>

lemma platform_irrelevant:
  "subprocess_run (w\<lparr>platform_system := s\<rparr>) = subprocess_run w"
  "exists (w\<lparr>platform_system := s\<rparr>) = exists w"
  "pjoin (w\<lparr>platform_system := s\<rparr>) = pjoin w"
  "file_size (w\<lparr>platform_system := s\<rparr>) = file_size w"
  "list_dir (w\<lparr>platform_system := s\<rparr>) = list_dir w"
  by (simp_all add: fun_eq_iff subprocess_run_def exists_def pjoin_def)

lemma find_conan_platform:
  "find_conan (w\<lparr>platform_system := s\<rparr>) b ps = find_conan w b ps"
  by (induction ps arbitrary: b) (simp_all add: platform_irrelevant cong: if_cong)

lemma check_tools_platform:
  "check_tools (w\<lparr>platform_system := s\<rparr>) ts ms = check_tools w ts ms"
proof (induction ts arbitrary: ms)
  case Nil
  show ?case by simp
next
  case (Cons t ts)
  then have "check_tools (w\<lparr>platform_system := s\<rparr>) ts = check_tools w ts"
    by (simp add: fun_eq_iff)
  then show ?case by (simp add: platform_irrelevant)
qed

lemma check_conan_platform:
  "check_conan (w\<lparr>platform_system := s\<rparr>) b = check_conan w b"
  by (simp only: check_conan_def platform_irrelevant find_conan_platform)

lemma stages_from_dependencies_platform:
  "stages_from_dependencies (w\<lparr>platform_system := s\<rparr>) b = stages_from_dependencies w b"
  by (simp only: stages_from_dependencies_def build_dependencies_def build_with_conan_def
        conan_command_def build_from_source_def build_opencv_def build_googletest_def
        build_onnxruntime_def opencv_dir_def gtest_dir_def onnx_dir_def onnx_prebuilt_def
        configure_cmake_def build_project_def verify_build_def install_bin_dir_def
        platform_irrelevant)

lemma check_prerequisites_result_platform:
  "snd (check_prerequisites (w\<lparr>platform_system := s\<rparr>) b) = snd (check_prerequisites w b)"
  by (simp add: check_prerequisites_def check_conan_platform check_tools_platform
        snd_io_seq snd_io_bind io_prims split: result.splits)

lemma configured_platform:
  "configured (w\<lparr>platform_system := s\<rparr>) a = configured w a"
  by (simp add: configured_def init_builder_def platform_irrelevant)

lemma find_conan_no_warning:
  "Print (Prereq PlatformWarning) \<notin> set (trace (find_conan w b ps))"
  by (induction ps arbitrary: b)
     (auto simp add: io_trace io_result split: result.splits sum.splits if_splits)

lemma check_tools_no_warning:
  "Print (Prereq PlatformWarning) \<notin> set (trace (check_tools w ts ms))"
  by (induction ts arbitrary: ms)
     (auto simp add: io_trace io_result split: result.splits sum.splits if_splits)

lemma check_conan_no_warning:
  "Print (Prereq PlatformWarning) \<notin> set (trace (check_conan w b))"
  using find_conan_no_warning [of w b conan_paths]
  by (auto simp add: check_conan_def io_trace io_result case_prod_beta
        split: result.splits sum.splits if_splits)

lemma check_prerequisites_filter_warning:
  "filter (\<lambda>e. e \<noteq> Print (Prereq PlatformWarning)) (trace (check_prerequisites w b)) =
     trace (check_prerequisites (on_windows w) b)"
proof -
  have c: "filter (\<lambda>e. e \<noteq> Print (Prereq PlatformWarning)) (trace (check_conan w b)) =
      trace (check_conan w b)"
    using check_conan_no_warning [of w b] by (auto simp add: filter_id_conv)
  have t: "filter (\<lambda>e. e \<noteq> Print (Prereq PlatformWarning))
        (trace (check_tools w required_tools [])) = trace (check_tools w required_tools [])"
    using check_tools_no_warning [of w required_tools "[]"] by (auto simp add: filter_id_conv)
  show ?thesis
    by (simp add: trace_check_prerequisites on_windows_def check_conan_platform
          check_tools_platform c t trace_prims snd_prims split: result.splits)
qed

text \<open>
  Claim C9. Whatever the platform reports, the prerequisite check ends as it would on the
  same machine reporting Windows, and its output differs only by the platform warning; the
  exit status of the whole run is the same; when the prerequisites are satisfied the
  checker says so in its last line, returns, and the run goes on with the dependency stage.
\<close>

theorem non_windows_only_warns:
  "snd (check_prerequisites w b) = snd (check_prerequisites (on_windows w) b) \<and>
   filter (\<lambda>e. e \<noteq> Print (Prereq PlatformWarning)) (trace (check_prerequisites w b)) =
     trace (check_prerequisites (on_windows w) b) \<and>
   exit_status (main w a) = exit_status (main (on_windows w) a) \<and>
   (\<forall>b'. result_of (check_prerequisites (on_windows w) b) = Some b' \<longrightarrow>
      result_of (check_prerequisites w b) = Some b' \<and>
      last (trace (check_prerequisites w b)) = Print (Prereq AllPrerequisitesSatisfied)) \<and>
   (\<forall>b'. result_of (check_prerequisites (on_windows w) (configured w a)) = Some b' \<longrightarrow>
      (\<exists>post. trace (main w a) =
         Print Banner #
         Print (SettingUp (arg_arch a) (arg_compiler a)
            (if arg_debug a then ''Debug'' else ''Release'')
            (\<not> arg_no_conan a) (\<not> arg_no_download a)) #
         trace (check_prerequisites w (configured w a)) @ trace (build_dependencies w b') @ post))"
proof -
  have r: "snd (check_prerequisites w b) = snd (check_prerequisites (on_windows w) b)" for b
    by (simp add: on_windows_def check_prerequisites_result_platform)
  have ro: "result_of (check_prerequisites (on_windows w) b) = result_of (check_prerequisites w b)"
    for b by (simp add: result_of_def r)
  have s: "stages_from_dependencies (on_windows w) = stages_from_dependencies w"
    by (simp add: fun_eq_iff on_windows_def stages_from_dependencies_platform)
  have c: "configured (on_windows w) a = configured w a"
    by (simp add: on_windows_def configured_platform)
  have e: "exit_status (main w a) = exit_status (main (on_windows w) a)"
    by (simp only: exit_status_main r [symmetric] s c)
  show ?thesis
    using r [of b] check_prerequisites_filter_warning [of w b] e
    by (auto simp add: ro dest: last_check_prerequisites trace_main_after_prerequisites)
qed

theorem non_windows_only_warns_witness:
  "platform_system w_linux \<noteq> ''Windows'' \<and>
   result_of (check_prerequisites w_linux (init_builder w_linux)) =
     Some ((init_builder w_linux)\<lparr>conan_path := Some ''conan''\<rparr>) \<and>
   last (trace (check_prerequisites w_linux (init_builder w_linux))) =
     Print (Prereq AllPrerequisitesSatisfied)"
proof -
  have "result_of (check_prerequisites (on_windows w_linux) (init_builder w_linux)) =
     Some ((init_builder w_linux)\<lparr>conan_path := Some ''conan''\<rparr>)"
    by (simp add: result_of_def snd_check_prerequisites check_conan_def required_tools_def
          init_builder_def on_windows_def w_linux_def w0_def io_result subprocess_run_def)
  with non_windows_only_warns [of w_linux "init_builder w_linux" default_args] show ?thesis
    by (simp add: w_linux_def w0_def)
qed

subsection \<open>Dependency acquisition with the package manager\<close>

lemma conan_command_eq:
  "conan_command w b exe =
     [exe, ''install'', pjoin w (pjoin w (root_dir b) ''conan'') ''conanfile.txt'',
      ''--build'', ''missing'',
      ''--profile:build'',
      pjoin w (pjoin w (root_dir b) ''conan'')
        (if config b = ''Release'' then ''conan_profile_release.txt''
         else ''conan_profile_debug.txt''),
      ''--profile:host'',
      pjoin w (pjoin w (root_dir b) ''conan'')
        (if config b = ''Release'' then ''conan_profile_release.txt''
         else ''conan_profile_debug.txt''),
      ''--output-folder='' @ pjoin w (pjoin w (root_dir b) ''build'') ''conan''] @
     (if compiler_flags b \<noteq> [] then split_ws (compiler_flags b) else []) @
     (if conan_set_arch b \<noteq> [] then split_ws (conan_set_arch b) else [])"
  by (simp add: conan_command_def conan_profile_file_def Let_def)

lemma build_dependencies_conan:
  assumes "skip_deps b = Some False" and "use_conan b" and "conan_path b = Some exe"
  shows "trace (build_dependencies w b) =
      Print (Deps (BuildingDependencies True)) # Exists (conan_dir w b) #
      (if path_exists w (conan_dir w b)
       then [Print (Deps CleaningConanCache), Rmtree (conan_dir w b)] else []) @
      [Print (Running (conan_command w b exe)),
       Subprocess (conan_command w b exe) (Some (root_dir b)) False] @
      (case proc w (conan_command w b exe) (Some (root_dir b)) of
         Inr _ \<Rightarrow> [Print (Deps ConanBuilt)]
       | Inl e \<Rightarrow> if e = CalledProcessError then [Print (Deps ConanBuildFailed)] else [])"
    and "snd (build_dependencies w b) =
      (case proc w (conan_command w b exe) (Some (root_dir b)) of
         Inr _ \<Rightarrow> Return () | Inl e \<Rightarrow> failure e)"
  using assms
  by (simp_all add: build_dependencies_def build_with_conan_def conan_dir_def failure_def
        Let_def io_trace io_result split: sum.splits)

lemma build_with_conan_no_missing_failure:
  "Print (Deps (CannotBuildFromSource ms)) \<notin> set (trace (build_with_conan w b))"
  by (auto simp add: build_with_conan_def io_trace io_result Let_def
        split: result.splits sum.splits if_splits option.splits)

text \<open>
  Claim C6. With the package-manager strategy and the skip flag unset, the dependency stage
  asks whether the cache directory exists and removes it if so, then runs one subprocess in
  the repository root: the detected package-manager executable with \<^verbatim>\<open>install\<close>, the same
  profile file after \<^verbatim>\<open>--profile:build\<close> and after \<^verbatim>\<open>--profile:host\<close> (the release profile
  when the build type is Release, the debug profile otherwise), followed by the words of
  the compiler flags and of the architecture flags when these are not empty. If that
  subprocess exits with a non-zero status the stage calls \<^verbatim>\<open>sys.exit(1)\<close>, and a run that
  reached the stage exits with status 1. (The executable is the one the prerequisite check
  stored: by \<open>check_prerequisites_conan_path\<close> every builder that leaves the check with the
  package-manager strategy has one.)
\<close>

theorem conan_acquisition:
  assumes "skip_deps b = Some False" and "use_conan b" and "conan_path b = Some exe"
  shows "trace (build_dependencies w b) =
           Print (Deps (BuildingDependencies True)) # Exists (conan_dir w b) #
           (if path_exists w (conan_dir w b)
            then [Print (Deps CleaningConanCache), Rmtree (conan_dir w b)] else []) @
           [Print (Running (conan_command w b exe)),
            Subprocess (conan_command w b exe) (Some (root_dir b)) False] @
           (case proc w (conan_command w b exe) (Some (root_dir b)) of
              Inr _ \<Rightarrow> [Print (Deps ConanBuilt)]
            | Inl e \<Rightarrow> if e = CalledProcessError then [Print (Deps ConanBuildFailed)] else []) \<and>
         conan_command w b exe =
           [exe, ''install'', pjoin w (pjoin w (root_dir b) ''conan'') ''conanfile.txt'',
            ''--build'', ''missing'',
            ''--profile:build'',
            pjoin w (pjoin w (root_dir b) ''conan'')
              (if config b = ''Release'' then ''conan_profile_release.txt''
               else ''conan_profile_debug.txt''),
            ''--profile:host'',
            pjoin w (pjoin w (root_dir b) ''conan'')
              (if config b = ''Release'' then ''conan_profile_release.txt''
               else ''conan_profile_debug.txt''),
            ''--output-folder='' @ pjoin w (pjoin w (root_dir b) ''build'') ''conan''] @
           (if compiler_flags b \<noteq> [] then split_ws (compiler_flags b) else []) @
           (if conan_set_arch b \<noteq> [] then split_ws (conan_set_arch b) else []) \<and>
         (proc w (conan_command w b exe) (Some (root_dir b)) = Inl CalledProcessError \<longrightarrow>
            snd (build_dependencies w b) = SysExit 1 \<and>
            (\<forall>a. result_of (check_prerequisites w (configured w a)) = Some b \<longrightarrow>
               exit_status (main w a) = 1))"
proof -
  note d = build_dependencies_conan [OF assms]
  have 3: "snd (build_dependencies w b) = SysExit 1 \<and>
            (\<forall>a. result_of (check_prerequisites w (configured w a)) = Some b \<longrightarrow>
               exit_status (main w a) = 1)"
    if f: "proc w (conan_command w b exe) (Some (root_dir b)) = Inl CalledProcessError"
  proof -
    have e: "snd (build_dependencies w b) = failure CalledProcessError"
      by (simp add: d(2) f)
    then have "snd (build_dependencies w b) = SysExit 1" by (simp add: failure_def)
    with e show ?thesis by (auto dest: exit_status_main_deps_failure)
  qed
  from d(1) conan_command_eq [of w b exe] 3 show ?thesis by blast
qed

theorem conan_acquisition_witness:
  "conan_command w_conan_fails ((configured w_conan_fails cross_args)\<lparr>conan_path := Some ''conan''\<rparr>)
       ''conan'' =
     [''conan'', ''install'', ''/repo/conan/conanfile.txt'', ''--build'', ''missing'',
      ''--profile:build'', ''/repo/conan/conan_profile_debug.txt'',
      ''--profile:host'', ''/repo/conan/conan_profile_debug.txt'',
      ''--output-folder=/repo/build/conan'',
      ''-s:a'', ''compiler.version=193'', ''-s:a'', ''arch=x86''] \<and>
   snd (build_dependencies w_conan_fails
          ((configured w_conan_fails cross_args)\<lparr>conan_path := Some ''conan''\<rparr>)) = SysExit 1 \<and>
   exit_status (main w_conan_fails cross_args) = 1"
proof -
  let ?w = w_conan_fails
  let ?b = "(configured ?w cross_args)\<lparr>conan_path := Some ''conan''\<rparr>"
  have j: "pjoin ?w p c = p @ ''/'' @ c" for p c
    by (simp add: pjoin_def w_conan_fails_def w0_def)
  have r: "script_root ?w = ''/repo''" by (simp add: w_conan_fails_def w0_def)
  have h: "skip_deps ?b = Some False" "use_conan ?b" "conan_path ?b = Some ''conan''"
    by (simp_all add: configured_fields cross_args_def default_args_def)
  have f: "proc ?w argv (Some (root_dir ?b)) = Inl CalledProcessError" for argv
    by (simp add: configured_fields r) (simp add: w_conan_fails_def)
  have p: "result_of (check_prerequisites ?w (configured ?w cross_args)) = Some ?b"
    by (rule check_prerequisites_conan_ok)
       (simp_all add: configured_fields cross_args_def default_args_def probe_succeeds_def
          w_conan_fails_def)
  have sp: "split_ws ''-s:a compiler.version=193'' = [''-s:a'', ''compiler.version=193'']"
    "split_ws ''-s:a arch=x86'' = [''-s:a'', ''arch=x86'']"
    by (simp_all add: split_ws_def is_space_def)
  from conan_acquisition [OF h, of ?w] f p
  have 1: "snd (build_dependencies ?w ?b) = SysExit 1"
    and 2: "exit_status (main ?w cross_args) = 1"
    by blast+
  from conan_acquisition [OF h, of ?w]
  have 3: "conan_command ?w ?b ''conan'' =
     [''conan'', ''install'', ''/repo/conan/conanfile.txt'', ''--build'', ''missing'',
      ''--profile:build'', ''/repo/conan/conan_profile_debug.txt'',
      ''--profile:host'', ''/repo/conan/conan_profile_debug.txt'',
      ''--output-folder=/repo/build/conan'',
      ''-s:a'', ''compiler.version=193'', ''-s:a'', ''arch=x86'']"
    by (simp add: configured_fields cross_args_def default_args_def j r sp)
  from 1 2 3 show ?thesis by blast
qed

subsection \<open>Dependency acquisition from source\<close>

lemma build_dependencies_skip:
  "skip_deps b = Some True \<Longrightarrow>
     build_dependencies w b = ([Print (Deps SkippingDependencies)], Return ())"
  by (simp add: build_dependencies_def io_prims)

lemma trace_build_from_source:
  "trace (build_from_source w b) =
     Print (Deps BuildingFromSource) # presence_checks w b @
     [Print (Deps (AvailableDependencies (available_deps w b))),
      Print (Deps (MissingDependencies (missing_deps w b)))] @
     (if missing_deps w b \<noteq> [] then [Print (Deps (CannotBuildFromSource (missing_deps w b)))]
      else Print (Deps AllDependenciesFound) # trace (source_builds w b))"
  by (simp add: build_from_source_def source_builds_def presence_checks_def available_deps_def
        missing_deps_def io_trace io_result Let_def)

lemma snd_build_from_source:
  "snd (build_from_source w b) =
     (if missing_deps w b \<noteq> [] then SysExit 1 else snd (source_builds w b))"
  by (simp add: build_from_source_def source_builds_def missing_deps_def io_result Let_def)

lemma trace_build_dependencies_source:
  assumes "skip_deps b = Some False" and "\<not> use_conan b"
  shows "trace (build_dependencies w b) =
     Print (Deps (BuildingDependencies False)) # trace (build_from_source w b)"
    and "snd (build_dependencies w b) = snd (build_from_source w b)"
  using assms by (simp_all add: build_dependencies_def io_trace io_result)

lemma missing_deps_empty:
  "missing_deps w b = [] \<longleftrightarrow>
     path_exists w (opencv_dir w b) \<and> path_exists w (gtest_dir w b) \<and>
     (path_exists w (onnx_dir w b) \<or> path_exists w (onnx_prebuilt w b))"
  by (simp add: missing_deps_def)

lemma subprocesses_presence_checks [simp]: "subprocesses (presence_checks w b) = []"
  by (simp add: presence_checks_def)

lemma subprocesses_build_opencv:
  "subprocesses (trace (build_opencv w b d)) =
     (if succeeds w (opencv_configure_command b, Some d)
      then [(opencv_configure_command b, Some d), (opencv_build_command b, Some d)]
      else [(opencv_configure_command b, Some d)])"
  by (simp add: build_opencv_def succeeds_def io_trace io_result Let_def
        split: sum.splits)

lemma snd_build_opencv:
  "snd (build_opencv w b d) =
     (case proc w (opencv_configure_command b) (Some d) of
        Inl e \<Rightarrow> failure e
      | Inr _ \<Rightarrow>
          (case proc w (opencv_build_command b) (Some d) of
             Inl e \<Rightarrow> failure e | Inr _ \<Rightarrow> Return ()))"
  by (simp add: build_opencv_def failure_def io_result Let_def split: sum.splits)

lemma subprocesses_build_googletest:
  "subprocesses (trace (build_googletest w b d)) =
     (if succeeds w (gtest_configure_command b, Some d)
      then [(gtest_configure_command b, Some d), (gtest_build_command b, Some d)]
      else [(gtest_configure_command b, Some d)])"
  by (simp add: build_googletest_def succeeds_def io_trace io_result split: sum.splits)

lemma snd_build_googletest:
  "snd (build_googletest w b d) =
     (case proc w (gtest_configure_command b) (Some d) of
        Inl e \<Rightarrow> failure e
      | Inr _ \<Rightarrow>
          (case proc w (gtest_build_command b) (Some d) of
             Inl e \<Rightarrow> failure e | Inr _ \<Rightarrow> Return ()))"
  by (simp add: build_googletest_def failure_def io_result split: sum.splits)

lemma subprocesses_build_onnxruntime:
  "subprocesses (trace (build_onnxruntime w b d)) = [(onnx_build_command b, Some d)]"
  by (simp add: build_onnxruntime_def io_trace io_result split: sum.splits)

lemma snd_build_onnxruntime:
  "snd (build_onnxruntime w b d) =
     (case proc w (onnx_build_command b) (Some d) of
        Inl e \<Rightarrow> failure e | Inr _ \<Rightarrow> Return ())"
  by (simp add: build_onnxruntime_def failure_def io_result split: sum.splits)

lemma subprocesses_source_builds:
  "subprocesses (trace (source_builds w b)) =
     take (Suc (length (takeWhile (succeeds w) (source_build_steps w b)))) (source_build_steps w b)"
  by (simp add: source_builds_def source_build_steps_def trace_io_seq
        subprocesses_build_opencv subprocesses_build_googletest subprocesses_build_onnxruntime
        snd_build_opencv snd_build_googletest succeeds_def
        split: sum.splits result.splits)

lemma snd_source_builds:
  "snd (source_builds w b) =
     (case find (\<lambda>step. \<not> succeeds w step) (source_build_steps w b) of
        None \<Rightarrow> Return ()
      | Some step \<Rightarrow> (case proc w (fst step) (snd step) of Inl e \<Rightarrow> failure e
                       | Inr _ \<Rightarrow> Return ()))"
  by (simp add: source_builds_def source_build_steps_def snd_io_seq
        snd_build_opencv snd_build_googletest snd_build_onnxruntime succeeds_def
        split: sum.splits result.splits)

lemma source_builds_fail:
  assumes "\<not> list_all (succeeds w) (source_build_steps w b)"
  shows "\<exists>e. snd (source_builds w b) = failure e"
  using assms
  by (simp add: snd_source_builds source_build_steps_def succeeds_def split: sum.splits) blast+

lemma source_builds_ok:
  assumes "list_all (succeeds w) (source_build_steps w b)"
  shows "snd (source_builds w b) = Return ()"
  using assms
  by (simp add: snd_source_builds source_build_steps_def succeeds_def split: sum.splits)

lemma source_builds_no_missing_failure:
  "Print (Deps (CannotBuildFromSource ms)) \<notin> set (trace (source_builds w b))"
  by (auto simp add: source_builds_def build_opencv_def build_googletest_def
        build_onnxruntime_def io_trace io_result Let_def
        split: result.splits sum.splits if_splits)

lemma missing_failure_iff:
  "(\<exists>ms. Print (Deps (CannotBuildFromSource ms)) \<in> set (trace (build_dependencies w b))) \<longleftrightarrow>
     skip_deps b = Some False \<and> \<not> use_conan b \<and> missing_deps w b \<noteq> []"
proof (cases "skip_deps b")
  case None
  then show ?thesis by (simp add: build_dependencies_def io_trace)
next
  case (Some skip)
  show ?thesis
  proof (cases skip)
    case True
    with Some show ?thesis by (simp add: build_dependencies_skip trace_pair)
  next
    case False
    show ?thesis
    proof (cases "use_conan b")
      case True
      with Some False show ?thesis
        by (simp add: build_dependencies_def io_trace io_result
              build_with_conan_no_missing_failure)
    next
      case uc: False
      from Some False have sk: "skip_deps b = Some False" by simp
      show ?thesis
        by (auto simp add: trace_build_dependencies_source [OF sk uc] trace_build_from_source
              presence_checks_def source_builds_no_missing_failure sk uc split: if_splits)
    qed
  qed
qed

lemma missing_failure_exit:
  assumes "skip_deps b = Some False" and "\<not> use_conan b" and "missing_deps w b \<noteq> []"
  shows "snd (build_dependencies w b) = SysExit 1"
  using assms(3)
  by (simp add: trace_build_dependencies_source [OF assms(1,2)] snd_build_from_source)

lemma configure_cmake_invokes:
  "Subprocess (configure_command b) (Some (root_dir b)) False \<in> set (trace (configure_cmake w b))"
  by (simp add: configure_cmake_def io_trace io_result)

lemma trace_main_skip:
  assumes "arg_skip_deps a" and "result_of (check_prerequisites w (configured w a)) = Some b"
  shows "\<exists>post. trace (main w a) =
     Print Banner #
     Print (SettingUp (arg_arch a) (arg_compiler a) (if arg_debug a then ''Debug'' else ''Release'')
        (\<not> arg_no_conan a) (\<not> arg_no_download a)) #
     trace (check_prerequisites w (configured w a)) @ [Print (Deps SkippingDependencies)] @
     trace (configure_cmake w b) @ post"
proof -
  from check_prerequisites_builder [OF assms(2)] obtain cp where
    "b = (configured w a)\<lparr>conan_path := cp\<rparr>" ..
  with assms(1) have "skip_deps b = Some True" by (simp add: configured_fields)
  then have d: "build_dependencies w b = ([Print (Deps SkippingDependencies)], Return ())"
    by (rule build_dependencies_skip)
  from assms(2) show ?thesis
    by (auto simp add: trace_main result_of_def stages_from_dependencies_def d
          trace_io_seq trace_pair split: result.splits)
qed

text \<open>
  Claim C4. With the skip flag set the dependency stage prints its notice and returns: it
  asks for no path and starts no subprocess, and a run that reached it goes on to CMake
  configuration and invokes the generator, whether or not the dependency trees exist. The
  missing-dependency failure is raised if and only if the skip flag is unset, the
  from-source strategy is selected and a dependency tree is missing (the OpenCV tree, the
  GoogleTest tree, or both the source tree and the prebuilt tree of the inference
  runtime); it ends the stage with \<^verbatim>\<open>sys.exit(1)\<close>.
\<close>

theorem skip_deps_short_circuits:
  "(skip_deps b = Some True \<longrightarrow>
      build_dependencies w b = ([Print (Deps SkippingDependencies)], Return ())) \<and>
   ((\<exists>ms. Print (Deps (CannotBuildFromSource ms)) \<in> set (trace (build_dependencies w b))) \<longleftrightarrow>
      skip_deps b = Some False \<and> \<not> use_conan b \<and>
      (\<not> path_exists w (opencv_dir w b) \<or> \<not> path_exists w (gtest_dir w b) \<or>
       (\<not> path_exists w (onnx_dir w b) \<and> \<not> path_exists w (onnx_prebuilt w b)))) \<and>
   ((\<exists>ms. Print (Deps (CannotBuildFromSource ms)) \<in> set (trace (build_dependencies w b))) \<longrightarrow>
      snd (build_dependencies w b) = SysExit 1) \<and>
   (\<forall>a b'. arg_skip_deps a \<and> result_of (check_prerequisites w (configured w a)) = Some b' \<longrightarrow>
      Subprocess (configure_command b') (Some (root_dir b')) False \<in> set (trace (main w a)) \<and>
      (\<exists>post. trace (main w a) =
         Print Banner #
         Print (SettingUp (arg_arch a) (arg_compiler a)
            (if arg_debug a then ''Debug'' else ''Release'')
            (\<not> arg_no_conan a) (\<not> arg_no_download a)) #
         trace (check_prerequisites w (configured w a)) @ [Print (Deps SkippingDependencies)] @
         trace (configure_cmake w b') @ post))"
proof -
  have 1: "skip_deps b = Some True \<longrightarrow>
      build_dependencies w b = ([Print (Deps SkippingDependencies)], Return ())"
    by (simp add: build_dependencies_skip)
  have 2: "(\<exists>ms. Print (Deps (CannotBuildFromSource ms)) \<in> set (trace (build_dependencies w b))) \<longleftrightarrow>
      skip_deps b = Some False \<and> \<not> use_conan b \<and>
      (\<not> path_exists w (opencv_dir w b) \<or> \<not> path_exists w (gtest_dir w b) \<or>
       (\<not> path_exists w (onnx_dir w b) \<and> \<not> path_exists w (onnx_prebuilt w b)))"
    using missing_deps_empty [of w b] by (simp only: missing_failure_iff) blast
  have 3: "(\<exists>ms. Print (Deps (CannotBuildFromSource ms)) \<in> set (trace (build_dependencies w b))) \<longrightarrow>
      snd (build_dependencies w b) = SysExit 1"
    by (simp only: missing_failure_iff) (simp add: missing_failure_exit)
  have 4: "Subprocess (configure_command b') (Some (root_dir b')) False \<in> set (trace (main w a)) \<and>
      (\<exists>post. trace (main w a) =
         Print Banner #
         Print (SettingUp (arg_arch a) (arg_compiler a)
            (if arg_debug a then ''Debug'' else ''Release'')
            (\<not> arg_no_conan a) (\<not> arg_no_download a)) #
         trace (check_prerequisites w (configured w a)) @ [Print (Deps SkippingDependencies)] @
         trace (configure_cmake w b') @ post)"
    if "arg_skip_deps a" and "result_of (check_prerequisites w (configured w a)) = Some b'"
    for a b'
  proof -
    from trace_main_skip [OF that] obtain post where
      p: "trace (main w a) =
         Print Banner #
         Print (SettingUp (arg_arch a) (arg_compiler a)
            (if arg_debug a then ''Debug'' else ''Release'')
            (\<not> arg_no_conan a) (\<not> arg_no_download a)) #
         trace (check_prerequisites w (configured w a)) @ [Print (Deps SkippingDependencies)] @
         trace (configure_cmake w b') @ post" ..
    have "Subprocess (configure_command b') (Some (root_dir b')) False \<in> set (trace (main w a))"
      using configure_cmake_invokes [of b' w] by (simp add: p)
    with p show ?thesis by blast
  qed
  from 1 2 3 4 show ?thesis by blast
qed

theorem skip_deps_short_circuits_witness:
  "build_dependencies w_fresh_checkout (configured w_fresh_checkout skip_args) =
     ([Print (Deps SkippingDependencies)], Return ()) \<and>
   Subprocess (configure_command (configured w_fresh_checkout skip_args)) (Some ''/repo'') False
     \<in> set (trace (main w_fresh_checkout skip_args)) \<and>
   snd (build_dependencies w_fresh_checkout (configured w_fresh_checkout source_args)) = SysExit 1"
proof -
  let ?w = w_fresh_checkout
  have s: "skip_deps (configured ?w skip_args) = Some True"
    by (simp add: configured_fields skip_args_def default_args_def)
  have a: "arg_skip_deps skip_args" by (simp add: skip_args_def)
  have p: "result_of (check_prerequisites ?w (configured ?w skip_args)) =
      Some (configured ?w skip_args)"
    by (rule check_prerequisites_source_ok)
       (simp_all add: configured_fields skip_args_def probe_succeeds_def w_fresh_checkout_def
          w0_def)
  have r: "root_dir (configured ?w skip_args) = ''/repo''"
    by (simp add: configured_fields w_fresh_checkout_def w0_def)
  have m: "skip_deps (configured ?w source_args) = Some False \<and>
      \<not> use_conan (configured ?w source_args) \<and>
      \<not> path_exists ?w (opencv_dir ?w (configured ?w source_args))"
    by (simp add: configured_fields source_args_def default_args_def w_fresh_checkout_def)
  from skip_deps_short_circuits [of "configured ?w skip_args" ?w] s
  have 1: "build_dependencies ?w (configured ?w skip_args) =
      ([Print (Deps SkippingDependencies)], Return ())"
    by blast
  from skip_deps_short_circuits [of "configured ?w skip_args" ?w] a p
  have "Subprocess (configure_command (configured ?w skip_args))
      (Some (root_dir (configured ?w skip_args))) False \<in> set (trace (main ?w skip_args))"
    by blast
  then have 2: "Subprocess (configure_command (configured ?w skip_args)) (Some ''/repo'') False
      \<in> set (trace (main ?w skip_args))"
    by (simp only: r)
  from skip_deps_short_circuits [of "configured ?w source_args" ?w] m
  have 3: "snd (build_dependencies ?w (configured ?w source_args)) = SysExit 1"
    by blast
  from 1 2 3 show ?thesis by blast
qed

text \<open>
  Claim C7. With the from-source strategy, the skip flag unset and the three dependency
  trees present, the subprocesses of the dependency stage are a prefix of the fixed list
  OpenCV configure, OpenCV build, GoogleTest configure, GoogleTest build, ONNX Runtime
  build: the commands that succeed from the start of the list, and the first one that does
  not. If all five succeed the stage returns. Otherwise the stage ends at the failing
  command, and a run that reached the stage exits with status 1 having started no
  subprocess after it.
\<close>

theorem source_builds_in_order:
  assumes "skip_deps b = Some False" and "\<not> use_conan b"
    and "path_exists w (opencv_dir w b)" and "path_exists w (gtest_dir w b)"
    and "path_exists w (onnx_dir w b) \<or> path_exists w (onnx_prebuilt w b)"
  shows "subprocesses (trace (build_dependencies w b)) =
           take (Suc (length (takeWhile (succeeds w) (source_build_steps w b))))
             (source_build_steps w b) \<and>
         (list_all (succeeds w) (source_build_steps w b) \<longrightarrow>
            snd (build_dependencies w b) = Return ()) \<and>
         (\<not> list_all (succeeds w) (source_build_steps w b) \<longrightarrow>
            (\<exists>e. snd (build_dependencies w b) = failure e) \<and>
            (\<forall>a. result_of (check_prerequisites w (configured w a)) = Some b \<longrightarrow>
               exit_status (main w a) = 1 \<and>
               subprocesses (trace (main w a)) =
                 subprocesses (trace (check_prerequisites w (configured w a))) @
                 take (Suc (length (takeWhile (succeeds w) (source_build_steps w b))))
                   (source_build_steps w b)))"
proof -
  from assms(3-5) have m: "missing_deps w b = []" by (simp add: missing_deps_empty)
  have t: "subprocesses (trace (build_dependencies w b)) =
           take (Suc (length (takeWhile (succeeds w) (source_build_steps w b))))
             (source_build_steps w b)"
    by (simp add: trace_build_dependencies_source [OF assms(1,2)] trace_build_from_source m
          subprocesses_source_builds)
  have r: "snd (build_dependencies w b) = snd (source_builds w b)"
    by (simp add: trace_build_dependencies_source [OF assms(1,2)] snd_build_from_source m)
  have ok: "list_all (succeeds w) (source_build_steps w b) \<longrightarrow>
            snd (build_dependencies w b) = Return ()"
    by (simp add: r source_builds_ok)
  have bad: "\<exists>e. snd (build_dependencies w b) = failure e"
    if "\<not> list_all (succeeds w) (source_build_steps w b)"
    using source_builds_fail [OF that] by (simp add: r)
  have proc: "exit_status (main w a) = 1 \<and>
               subprocesses (trace (main w a)) =
                 subprocesses (trace (check_prerequisites w (configured w a))) @
                 take (Suc (length (takeWhile (succeeds w) (source_build_steps w b))))
                   (source_build_steps w b)"
    if "\<not> list_all (succeeds w) (source_build_steps w b)"
      and p: "result_of (check_prerequisites w (configured w a)) = Some b" for a
  proof -
    from bad [OF that(1)] obtain e where e: "snd (build_dependencies w b) = failure e" ..
    show ?thesis
      using exit_status_main_deps_failure [OF p e] trace_main_deps_failure [OF p e]
      by (simp add: t)
  qed
  from t ok bad proc show ?thesis by blast
qed

theorem source_builds_in_order_witness:
  "subprocesses (trace (build_dependencies w_gtest_fails (configured w_gtest_fails source_args))) =
     [(opencv_configure_command (configured w_gtest_fails source_args),
         Some ''/repo/extern/opencv-4.5.5''),
      (opencv_build_command (configured w_gtest_fails source_args),
         Some ''/repo/extern/opencv-4.5.5''),
      (gtest_configure_command (configured w_gtest_fails source_args),
         Some ''/repo/extern/googletest'')] \<and>
   exit_status (main w_gtest_fails source_args) = 1"
proof -
  let ?w = w_gtest_fails
  let ?b = "configured ?w source_args"
  have j: "pjoin ?w p c = p @ ''/'' @ c" for p c
    by (simp add: pjoin_def w_gtest_fails_def w0_def)
  have r: "root_dir ?b = ''/repo''" by (simp add: configured_fields w_gtest_fails_def w0_def)
  have d: "opencv_dir ?w ?b = ''/repo/extern/opencv-4.5.5''"
    "gtest_dir ?w ?b = ''/repo/extern/googletest''"
    "onnx_dir ?w ?b = ''/repo/extern/onnxruntime''"
    by (simp_all add: opencv_dir_def gtest_dir_def onnx_dir_def j r)
  have h: "skip_deps ?b = Some False" "\<not> use_conan ?b"
    by (simp_all add: configured_fields source_args_def default_args_def)
  have e: "path_exists ?w p" for p by (simp add: w_gtest_fails_def w0_def)
  have p: "result_of (check_prerequisites ?w ?b) = Some ?b"
    by (rule check_prerequisites_source_ok)
       (simp_all add: configured_fields source_args_def probe_succeeds_def w_gtest_fails_def)
  have s: "succeeds ?w (c, Some ''/repo/extern/opencv-4.5.5'')"
    "\<not> succeeds ?w (c, Some ''/repo/extern/googletest'')" for c
    by (simp_all add: succeeds_def w_gtest_fails_def)
  have k: "takeWhile (succeeds ?w) (source_build_steps ?w ?b) =
      [(opencv_configure_command ?b, Some ''/repo/extern/opencv-4.5.5''),
       (opencv_build_command ?b, Some ''/repo/extern/opencv-4.5.5'')]"
    by (simp add: source_build_steps_def d s)
  have n: "\<not> list_all (succeeds ?w) (source_build_steps ?w ?b)"
    by (simp add: source_build_steps_def d s)
  have e5: "path_exists ?w (onnx_dir ?w ?b) \<or> path_exists ?w (onnx_prebuilt ?w ?b)"
    by (simp add: e)
  note c7 = source_builds_in_order [OF h e e e5]
  from c7 have 1: "subprocesses (trace (build_dependencies ?w ?b)) =
      take 3 (source_build_steps ?w ?b)"
    by (simp add: k numeral_3_eq_3)
  from c7 n p have 2: "exit_status (main ?w source_args) = 1"
    by blast
  from 1 2 show ?thesis by (simp add: source_build_steps_def d numeral_3_eq_3)
qed

text \<open>
  Claim C10. With the from-source strategy, when the source tree of the inference runtime
  is absent and its prebuilt tree is present (and the other two trees are present and
  their builds succeed), the presence check passes, and the build command of the
  inference runtime is still started with the absent source tree as its working
  directory; the stage ends as that subprocess call ends.
\<close>

theorem prebuilt_onnx_still_built:
  assumes "skip_deps b = Some False" and "\<not> use_conan b"
    and "path_exists w (opencv_dir w b)" and "path_exists w (gtest_dir w b)"
    and "\<not> path_exists w (onnx_dir w b)" and "path_exists w (onnx_prebuilt w b)"
    and "list_all (succeeds w) (take 4 (source_build_steps w b))"
  shows "Print (Deps AllDependenciesFound) \<in> set (trace (build_dependencies w b)) \<and>
         (\<forall>ms. Print (Deps (CannotBuildFromSource ms))
            \<notin> set (trace (build_dependencies w b))) \<and>
         Exists (onnx_dir w b) \<in> set (trace (build_dependencies w b)) \<and>
         Subprocess (onnx_build_command b) (Some (onnx_dir w b)) True
           \<in> set (trace (build_dependencies w b)) \<and>
         snd (build_dependencies w b) =
           (case proc w (onnx_build_command b) (Some (onnx_dir w b)) of
              Inl e \<Rightarrow> failure e | Inr _ \<Rightarrow> Return ())"
proof -
  from assms(3-6) have m: "missing_deps w b = []" by (simp add: missing_deps_empty)
  from assms(7) have ok:
    "\<exists>out. proc w (opencv_configure_command b) (Some (opencv_dir w b)) = Inr out"
    "\<exists>out. proc w (opencv_build_command b) (Some (opencv_dir w b)) = Inr out"
    "\<exists>out. proc w (gtest_configure_command b) (Some (gtest_dir w b)) = Inr out"
    "\<exists>out. proc w (gtest_build_command b) (Some (gtest_dir w b)) = Inr out"
    by (auto simp add: source_build_steps_def succeeds_def split: sum.splits)
  have o: "snd (build_opencv w b (opencv_dir w b)) = Return ()"
    using ok(1,2) by (auto simp add: snd_build_opencv)
  have g: "snd (build_googletest w b (gtest_dir w b)) = Return ()"
    using ok(3,4) by (auto simp add: snd_build_googletest)
  have x: "Subprocess (onnx_build_command b) (Some (onnx_dir w b)) True
      \<in> set (trace (build_onnxruntime w b (onnx_dir w b)))"
    by (simp add: build_onnxruntime_def io_trace io_result)
  have t: "trace (build_dependencies w b) =
      Print (Deps (BuildingDependencies False)) # Print (Deps BuildingFromSource) #
      presence_checks w b @
      [Print (Deps (AvailableDependencies (available_deps w b))),
       Print (Deps (MissingDependencies [])), Print (Deps AllDependenciesFound)] @
      trace (build_opencv w b (opencv_dir w b)) @ trace (build_googletest w b (gtest_dir w b)) @
      trace (build_onnxruntime w b (onnx_dir w b))"
    by (simp add: trace_build_dependencies_source [OF assms(1,2)] trace_build_from_source m
          source_builds_def trace_io_seq o g)
  have c: "\<forall>ms. Print (Deps (CannotBuildFromSource ms))
      \<notin> set (trace (build_dependencies w b))"
    using missing_failure_iff [of w b] by (simp add: m)
  have r: "snd (build_dependencies w b) =
           (case proc w (onnx_build_command b) (Some (onnx_dir w b)) of
              Inl e \<Rightarrow> failure e | Inr _ \<Rightarrow> Return ())"
    by (simp add: trace_build_dependencies_source [OF assms(1,2)] snd_build_from_source m
          source_builds_def snd_io_seq o g snd_build_onnxruntime)
  have a: "Print (Deps AllDependenciesFound) \<in> set (trace (build_dependencies w b))"
    and e: "Exists (onnx_dir w b) \<in> set (trace (build_dependencies w b))"
    and s: "Subprocess (onnx_build_command b) (Some (onnx_dir w b)) True
      \<in> set (trace (build_dependencies w b))"
    using x by (simp_all add: t presence_checks_def)
  from a c e s r show ?thesis by blast
qed

theorem prebuilt_onnx_still_built_witness:
  "\<not> path_exists w_prebuilt_only ''/repo/extern/onnxruntime'' \<and>
   Print (Deps AllDependenciesFound)
     \<in> set (trace (build_dependencies w_prebuilt_only (configured w_prebuilt_only source_args))) \<and>
   Subprocess (onnx_build_command (configured w_prebuilt_only source_args))
       (Some ''/repo/extern/onnxruntime'') True
     \<in> set (trace (build_dependencies w_prebuilt_only (configured w_prebuilt_only source_args))) \<and>
   snd (build_dependencies w_prebuilt_only (configured w_prebuilt_only source_args)) =
     Raised FileNotFoundError"
proof -
  let ?w = w_prebuilt_only
  let ?b = "configured ?w source_args"
  have j: "pjoin ?w p c = p @ ''/'' @ c" for p c
    by (simp add: pjoin_def w_prebuilt_only_def w0_def)
  have r: "root_dir ?b = ''/repo''" by (simp add: configured_fields w_prebuilt_only_def w0_def)
  have d: "opencv_dir ?w ?b = ''/repo/extern/opencv-4.5.5''"
    "gtest_dir ?w ?b = ''/repo/extern/googletest''"
    "onnx_dir ?w ?b = ''/repo/extern/onnxruntime''"
    "onnx_prebuilt ?w ?b = ''/repo/extern/onnxruntime-win-x64-1.17.3''"
    by (simp_all add: opencv_dir_def gtest_dir_def onnx_dir_def onnx_prebuilt_def j r)
  have h: "skip_deps ?b = Some False" "\<not> use_conan ?b"
    by (simp_all add: configured_fields source_args_def default_args_def)
  have e: "path_exists ?w (opencv_dir ?w ?b)" "path_exists ?w (gtest_dir ?w ?b)"
    "\<not> path_exists ?w (onnx_dir ?w ?b)" "path_exists ?w (onnx_prebuilt ?w ?b)"
    by (simp_all add: d) (simp_all add: w_prebuilt_only_def)
  have s: "list_all (succeeds ?w) (take 4 (source_build_steps ?w ?b))"
    by (simp add: source_build_steps_def d succeeds_def) (simp add: w_prebuilt_only_def)
  have f: "proc ?w c (Some ''/repo/extern/onnxruntime'') = Inl FileNotFoundError" for c
    by (simp add: w_prebuilt_only_def)
  from prebuilt_onnx_still_built [OF h e s] e(3) show ?thesis
    by (simp add: d f failure_def)
qed

subsection \<open>Artifact verification\<close>

lemma verify_build_library_missing:
  assumes "\<not> path_exists w (ofiq_lib_path w b)"
  shows "verify_build w b =
     ([Print (Verify VerifyingBuild), Exists (ofiq_lib_path w b),
       Print (Verify (LibraryNotFound (ofiq_lib_path w b))), Exists (install_bin_dir w b)] @
      (if path_exists w (install_bin_dir w b)
       then [Iterdir (install_bin_dir w b),
             Print (Verify (FilesInDirectory (list_dir w (install_bin_dir w b))))]
       else []),
      SysExit 1)"
  using assms
  by (simp add: verify_build_def ofiq_lib_path_def Let_def io_prims io_simps)

lemma verify_build_library_present:
  assumes "path_exists w (ofiq_lib_path w b)"
  shows "verify_build w b =
     ([Print (Verify VerifyingBuild), Exists (ofiq_lib_path w b),
       Print (Verify (LibraryFound (ofiq_lib_path w b))), Stat (ofiq_lib_path w b),
       Print (Verify (FileSize (file_size w (ofiq_lib_path w b)))),
       Exists (sample_app_path w b),
       Print (Verify (if path_exists w (sample_app_path w b)
                      then SampleAppFound (sample_app_path w b) else SampleAppNotFound)),
       Print (Verify VerificationCompleted)],
      Return ())"
  using assms
  by (simp add: verify_build_def ofiq_lib_path_def sample_app_path_def Let_def io_prims io_simps)

text \<open>
  Claim C5 says that a missing shared library makes the process exit with a non-zero
  status after the contents of the install directory have been listed. When the install
  directory does not exist either, the stage exits without listing anything.
\<close>

theorem library_missing_without_listing:
  "verify_build w_fresh_checkout (configured w_fresh_checkout default_args) =
     ([Print (Verify VerifyingBuild),
       Exists ''/repo/install_x86_64/Release/bin/ofiq_lib.dll'',
       Print (Verify (LibraryNotFound ''/repo/install_x86_64/Release/bin/ofiq_lib.dll'')),
       Exists ''/repo/install_x86_64/Release/bin''],
      SysExit 1)"
proof -
  let ?w = w_fresh_checkout
  have n: "\<not> path_exists ?w p" for p by (simp add: w_fresh_checkout_def)
  have j: "pjoin ?w p c = p @ ''/'' @ c" for p c
    by (simp add: pjoin_def w_fresh_checkout_def w0_def)
  have r: "script_root ?w = ''/repo''" by (simp add: w_fresh_checkout_def w0_def)
  have d: "install_bin_dir ?w (configured ?w default_args) = ''/repo/install_x86_64/Release/bin''"
    by (simp add: install_bin_dir_def configured_fields default_args_def j r)
  have l: "ofiq_lib_path ?w (configured ?w default_args) =
      ''/repo/install_x86_64/Release/bin/ofiq_lib.dll''"
    by (simp add: ofiq_lib_path_def d j)
  show ?thesis
    by (simp add: verify_build_library_missing [OF n] d l n)
qed

text \<open>
  Claim C5, amended. When the shared library is absent from the expected path, the
  verification stage calls \<^verbatim>\<open>sys.exit(1)\<close>; before that it lists the contents of the
  install-bin directory if that directory exists, and lists nothing if it does not. When
  the library is present the stage returns, with a warning when the sample executable is
  absent. A run whose earlier stages succeeded exits with status 1 in the first case and
  with status 0 in the second.
\<close>

theorem verify_build_outcomes:
  "(\<not> path_exists w (ofiq_lib_path w b) \<longrightarrow>
      snd (verify_build w b) = SysExit 1 \<and>
      trace (verify_build w b) =
        [Print (Verify VerifyingBuild), Exists (ofiq_lib_path w b),
         Print (Verify (LibraryNotFound (ofiq_lib_path w b))), Exists (install_bin_dir w b)] @
        (if path_exists w (install_bin_dir w b)
         then [Iterdir (install_bin_dir w b),
               Print (Verify (FilesInDirectory (list_dir w (install_bin_dir w b))))]
         else [])) \<and>
   (path_exists w (ofiq_lib_path w b) \<longrightarrow>
      snd (verify_build w b) = Return () \<and>
      (\<not> path_exists w (sample_app_path w b) \<longrightarrow>
         Print (Verify SampleAppNotFound) \<in> set (trace (verify_build w b)))) \<and>
   (\<forall>a. result_of (check_prerequisites w (configured w a)) = Some b \<and>
        snd (build_dependencies w b) = Return () \<and>
        snd (configure_cmake w b) = Return () \<and>
        snd (build_project w b) = Return () \<longrightarrow>
        exit_status (main w a) = (if path_exists w (ofiq_lib_path w b) then 0 else 1))"
proof -
  have 1: "snd (verify_build w b) = SysExit 1 \<and>
      trace (verify_build w b) =
        [Print (Verify VerifyingBuild), Exists (ofiq_lib_path w b),
         Print (Verify (LibraryNotFound (ofiq_lib_path w b))), Exists (install_bin_dir w b)] @
        (if path_exists w (install_bin_dir w b)
         then [Iterdir (install_bin_dir w b),
               Print (Verify (FilesInDirectory (list_dir w (install_bin_dir w b))))]
         else [])"
    if "\<not> path_exists w (ofiq_lib_path w b)"
    by (simp add: verify_build_library_missing [OF that] trace_pair)
  have 2: "snd (verify_build w b) = Return () \<and>
      (\<not> path_exists w (sample_app_path w b) \<longrightarrow>
         Print (Verify SampleAppNotFound) \<in> set (trace (verify_build w b)))"
    if "path_exists w (ofiq_lib_path w b)"
    by (simp add: verify_build_library_present [OF that] trace_pair)
  have 3: "exit_status (main w a) = (if path_exists w (ofiq_lib_path w b) then 0 else 1)"
    if "result_of (check_prerequisites w (configured w a)) = Some b"
      and "snd (build_dependencies w b) = Return ()"
      and "snd (configure_cmake w b) = Return ()"
      and "snd (build_project w b) = Return ()" for a
    unfolding exit_status_main_verify [OF that] using 1 2 by (auto simp add: exit_status_def)
  from 1 2 3 show ?thesis by blast
qed

theorem verify_build_outcomes_witness:
  "snd (verify_build w_library_missing (configured w_library_missing default_args)) = SysExit 1 \<and>
   trace (verify_build w_library_missing (configured w_library_missing default_args)) =
     [Print (Verify VerifyingBuild),
      Exists ''/repo/install_x86_64/Release/bin/ofiq_lib.dll'',
      Print (Verify (LibraryNotFound ''/repo/install_x86_64/Release/bin/ofiq_lib.dll'')),
      Exists ''/repo/install_x86_64/Release/bin'',
      Iterdir ''/repo/install_x86_64/Release/bin'',
      Print (Verify (FilesInDirectory [''OFIQSampleApp.exe'']))] \<and>
   snd (verify_build w_sample_missing (configured w_sample_missing default_args)) = Return () \<and>
   Print (Verify SampleAppNotFound)
     \<in> set (trace (verify_build w_sample_missing (configured w_sample_missing default_args)))"
proof -
  let ?w = w_library_missing and ?v = w_sample_missing
  have j: "pjoin ?w p c = p @ ''/'' @ c" "pjoin ?v p c = p @ ''/'' @ c" for p c
    by (simp_all add: pjoin_def w_library_missing_def w_sample_missing_def w0_def)
  have r: "script_root ?w = ''/repo''" "script_root ?v = ''/repo''"
    by (simp_all add: w_library_missing_def w_sample_missing_def w0_def)
  have d: "install_bin_dir ?w (configured ?w default_args) = ''/repo/install_x86_64/Release/bin''"
    "install_bin_dir ?v (configured ?v default_args) = ''/repo/install_x86_64/Release/bin''"
    by (simp_all add: install_bin_dir_def configured_fields default_args_def j r)
  have l: "ofiq_lib_path ?w (configured ?w default_args) =
      ''/repo/install_x86_64/Release/bin/ofiq_lib.dll''"
    "ofiq_lib_path ?v (configured ?v default_args) =
      ''/repo/install_x86_64/Release/bin/ofiq_lib.dll''"
    "sample_app_path ?v (configured ?v default_args) =
      ''/repo/install_x86_64/Release/bin/OFIQSampleApp.exe''"
    by (simp_all add: ofiq_lib_path_def sample_app_path_def d j)
  have e: "\<not> path_exists ?w ''/repo/install_x86_64/Release/bin/ofiq_lib.dll''"
    "path_exists ?w ''/repo/install_x86_64/Release/bin''"
    "path_exists ?v ''/repo/install_x86_64/Release/bin/ofiq_lib.dll''"
    "\<not> path_exists ?v ''/repo/install_x86_64/Release/bin/OFIQSampleApp.exe''"
    "list_dir ?w ''/repo/install_x86_64/Release/bin'' = [''OFIQSampleApp.exe'']"
    by (simp_all add: w_library_missing_def w_sample_missing_def)
  from verify_build_outcomes [of ?w "configured ?w default_args"] e(1,2,5)
  have 1: "snd (verify_build ?w (configured ?w default_args)) = SysExit 1 \<and>
      trace (verify_build ?w (configured ?w default_args)) =
        [Print (Verify VerifyingBuild),
         Exists ''/repo/install_x86_64/Release/bin/ofiq_lib.dll'',
         Print (Verify (LibraryNotFound ''/repo/install_x86_64/Release/bin/ofiq_lib.dll'')),
         Exists ''/repo/install_x86_64/Release/bin'',
         Iterdir ''/repo/install_x86_64/Release/bin'',
         Print (Verify (FilesInDirectory [''OFIQSampleApp.exe'']))]"
    by (simp add: l d)
  from verify_build_outcomes [of ?v "configured ?v default_args"] e(3,4)
  have 2: "snd (verify_build ?v (configured ?v default_args)) = Return () \<and>
      Print (Verify SampleAppNotFound)
        \<in> set (trace (verify_build ?v (configured ?v default_args)))"
    by (simp add: l)
  from 1 2 show ?thesis by blast
qed

end
